theory Spec2Isabelle
  imports Main "HOL-Library.Word" "HOL-Library.Finite_Map"
begin

unbundle bit_operations_syntax

section \<open>Service descriptions\<close>

text \<open>
  The declaration of the service struct is not part of the sources at hand; the records
  below hold exactly the fields that \<^verbatim>\<open>config/config.go\<close>, \<^verbatim>\<open>router/api/backup.go\<close> and
  \<^verbatim>\<open>router/ui/handler.go\<close> read or write. Fields of nested structs carry the name of the
  struct as a prefix. A \<^verbatim>\<open>time.Duration\<close> is its number of nanoseconds.
\<close>

record ServiceBinding =
  Binding_Type :: string
  Binding_Provider :: string
  Binding_Host :: string
  Binding_Port :: int
  Binding_URI :: string
  Binding_Username :: string
  Binding_Password :: string
  Binding_Database :: string

record ServiceRetention =
  Retention_Days :: int
  Retention_Files :: int

record Service =
  Name :: string
  Binding :: ServiceBinding
  Schedule :: string
  Timeout :: int
  Retention :: ServiceRetention
  DirectS3 :: bool
  DisableColumnStatistics :: bool
  LogStdErr :: bool
  ForceImport :: bool
  LocalBackupPath :: string
  IgnoreTables :: "string list"
  BackupOptions :: "string list"
  RestoreOptions :: "string list"

text \<open>The zero value of the struct, as Go creates it for a missing map entry.\<close>

definition zero_Service :: Service where
  "zero_Service =
     \<lparr>Name = [],
      Binding = \<lparr>Binding_Type = [], Binding_Provider = [], Binding_Host = [],
                 Binding_Port = 0, Binding_URI = [], Binding_Username = [],
                 Binding_Password = [], Binding_Database = []\<rparr>,
      Schedule = [], Timeout = 0,
      Retention = \<lparr>Retention_Days = 0, Retention_Files = 0\<rparr>,
      DirectS3 = False, DisableColumnStatistics = False, LogStdErr = False,
      ForceImport = False, LocalBackupPath = [], IgnoreTables = [],
      BackupOptions = [], RestoreOptions = []\<rparr>"

text \<open>
  A Go \<^verbatim>\<open>error\<close> value; \<^verbatim>\<open>nil\<close> is \<open>None\<close> of \<open>error option\<close>. The last three are the
  errors of the state tracker and of the storage catalog.
\<close>

datatype error =
    Errorf string          \<comment> \<open>\<^verbatim>\<open>fmt.Errorf\<close> with the formatted message\<close>
  | EscapeError string     \<comment> \<open>\<^verbatim>\<open>url.EscapeError\<close>\<close>
  | NotFoundError string
  | StorageError string
  | BusyError

section \<open>The state tracker\<close>

text \<open>
  The identity of a service instance is the pair of its type and its name.
\<close>

type_synonym service_key = "string \<times> string"

definition key_of :: "Service \<Rightarrow> service_key" where
  "key_of s = (Binding_Type (Binding s), Name s)"

datatype op_kind = backup | restore

datatype phase = idle | queued | running | succeeded | failed

record OperationState =
  op_kind :: op_kind
  op_phase :: phase
  lastError :: "string option"

text \<open>
  Modelled from the spec: the package \<^verbatim>\<open>state\<close> (the State Tracker of section 4.1) is
  not part of the sources at hand. The tracker maps a service key to its operation
  state; a key that was never reserved is idle. The time stamps of an operation state
  are left out. The handle that \<open>Reserve\<close> returns is the service key itself.
\<close>

type_synonym tracker = "service_key \<rightharpoonup> OperationState"

definition Query :: "tracker \<Rightarrow> service_key \<Rightarrow> phase" where
  "Query tr k = (case tr k of None \<Rightarrow> idle | Some s \<Rightarrow> op_phase s)"

definition in_flight :: "tracker \<Rightarrow> service_key \<Rightarrow> bool" where
  "in_flight tr k = (Query tr k = queued \<or> Query tr k = running)"

text \<open>
  Modelled from the spec: \<open>Reserve\<close> fails with \<open>BusyError\<close> if the key already has phase
  queued or running; otherwise it creates or overwrites the entry with phase queued, in
  one atomic step.
\<close>

definition Reserve :: "service_key \<Rightarrow> op_kind \<Rightarrow> tracker \<Rightarrow> error + (service_key \<times> tracker)" where
  "Reserve k kind tr =
     (if in_flight tr k then Inl BusyError
      else Inr (k, tr(k \<mapsto> \<lparr>op_kind = kind, op_phase = queued, lastError = None\<rparr>)))"

text \<open>
  Modelled from the spec: the transitions of a reserved operation. A transition that
  the state machine \<open>idle \<rightarrow> queued \<rightarrow> running \<rightarrow> {succeeded, failed}\<close> does not allow is a
  programming error and leaves the tracker as it is. Failure is recorded at any stage
  of an operation in flight.
\<close>

definition set_phase :: "service_key \<Rightarrow> phase \<Rightarrow> string option \<Rightarrow> tracker \<Rightarrow> tracker" where
  "set_phase k p e tr =
     (case tr k of None \<Rightarrow> tr
      | Some s \<Rightarrow> tr(k \<mapsto> s\<lparr>op_phase := p, lastError := e\<rparr>))"

definition MarkRunning :: "service_key \<Rightarrow> tracker \<Rightarrow> tracker" where
  "MarkRunning h tr = (if Query tr h = queued then set_phase h running None tr else tr)"

definition MarkSucceeded :: "service_key \<Rightarrow> string \<Rightarrow> tracker \<Rightarrow> tracker" where
  "MarkSucceeded h artifactName tr =
     (if Query tr h = running then set_phase h succeeded None tr else tr)"

definition MarkFailed :: "service_key \<Rightarrow> string \<Rightarrow> tracker \<Rightarrow> tracker" where
  "MarkFailed h err tr =
     (if in_flight tr h then set_phase h failed (Some err) tr else tr)"

text \<open>
  Modelled from the spec: callers of the tracker run concurrently, and the tracker
  serialises their calls (section 4.1: all mutations on a key are serialised, and
  \<open>Reserve\<close> is one atomic check-and-set). An execution is therefore a list of calls in
  the order in which the tracker takes them; \<open>run\<close> gives the answer to each. The
  reservation of \<^verbatim>\<open>CreateBackup\<close> is the call \<open>CallReserve k backup\<close>. \<open>answers k\<close> are the
  answers to the reservations for the key \<open>k\<close>, in order.
\<close>

datatype tracker_call =
    CallReserve service_key op_kind
  | CallMarkRunning service_key
  | CallMarkSucceeded service_key string
  | CallMarkFailed service_key string

datatype outcome = Granted | Busy | Done

fun step :: "tracker_call \<Rightarrow> tracker \<Rightarrow> outcome \<times> tracker" where
  "step (CallReserve k kind) tr =
     (case Reserve k kind tr of Inl _ \<Rightarrow> (Busy, tr) | Inr (_, tr') \<Rightarrow> (Granted, tr'))"
| "step (CallMarkRunning h) tr = (Done, MarkRunning h tr)"
| "step (CallMarkSucceeded h a) tr = (Done, MarkSucceeded h a tr)"
| "step (CallMarkFailed h e) tr = (Done, MarkFailed h e tr)"

fun run :: "tracker \<Rightarrow> tracker_call list \<Rightarrow> outcome list" where
  "run tr [] = []"
| "run tr (c # cs) = (case step c tr of (out, tr') \<Rightarrow> out # run tr' cs)"

fun reserves :: "service_key \<Rightarrow> tracker_call \<Rightarrow> bool" where
  "reserves k (CallReserve k' kind) = (k' = k)"
| "reserves k _ = False"

fun terminal :: "service_key \<Rightarrow> tracker_call \<Rightarrow> bool" where
  "terminal k (CallMarkSucceeded h a) = (h = k)"
| "terminal k (CallMarkFailed h e) = (h = k)"
| "terminal k _ = False"

definition answers :: "service_key \<Rightarrow> tracker \<Rightarrow> tracker_call list \<Rightarrow> outcome list" where
  "answers k tr calls = map snd (filter (\<lambda>(c, out). reserves k c) (zip calls (run tr calls)))"


section \<open>The redis executor: \<^verbatim>\<open>service/redis/restore.go\<close>\<close>

text \<open>
  What a call of the executor can act on: the state tracker, the log, the object store
  behind the S3 client and the redis instance behind the binding. The last two are
  kept as the lists of requests issued to them. \<open>transitions\<close> records every phase the
  tracker was asked to write, in order.
\<close>

record world =
  tracker :: tracker
  transitions :: "(service_key \<times> phase) list"
  logs :: "string list"
  s3_requests :: "string list"
  redis_commands :: "string list"

text \<open>
  Modelled from the spec: \<^verbatim>\<open>state.RestoreQueue(service)\<close> is the reservation of section 4.1
  for a restore, and \<^verbatim>\<open>state.RestoreFailure(service, filename)\<close> is \<open>MarkFailed\<close>. Neither
  returns a value to its caller.
\<close>

definition RestoreQueue :: "Service \<Rightarrow> world \<Rightarrow> world" where
  "RestoreQueue service w =
     (case Reserve (key_of service) restore (tracker w) of
        Inl _ \<Rightarrow> w
      | Inr (_, tr) \<Rightarrow>
          w\<lparr>tracker := tr, transitions := transitions w @ [(key_of service, queued)]\<rparr>)"

definition RestoreFailure :: "Service \<Rightarrow> string \<Rightarrow> world \<Rightarrow> world" where
  "RestoreFailure service filename w =
     w\<lparr>tracker := MarkFailed (key_of service) filename (tracker w),
       transitions := transitions w @ [(key_of service, failed)]\<rparr>"

definition Errorln :: "string \<Rightarrow> world \<Rightarrow> world" where
  "Errorln msg w = w\<lparr>logs := logs w @ [msg]\<rparr>"

text \<open>
  \<^verbatim>\<open>filepath.Base\<close> on a system whose separator is the slash: the last element of the
  path, after trailing slashes are removed; \<^verbatim>\<open>.\<close> for the empty path and \<^verbatim>\<open>/\<close> for a path
  of slashes only.
\<close>

definition Base :: "string \<Rightarrow> string" where
  "Base path =
     (if path = [] then ''.''
      else let stripped = rev (dropWhile (\<lambda>c. c = CHR ''/'') (rev path));
               elem = rev (takeWhile (\<lambda>c. c \<noteq> CHR ''/'') (rev stripped))
           in if elem = [] then ''/'' else elem)"

text \<open>
  \<^verbatim>\<open>
  func Restore(ctx, s3, service, binding, objectPath) error {
      state.RestoreQueue(service)
      log.Errorln("restoring redis is not supported, ...")
      filename := filepath.Base(objectPath)
      state.RestoreFailure(service, filename)
      return fmt.Errorf("redis restore: unsupported")
  }
  \<close>
  The context, the S3 client and the binding are values of any type: the function never
  reads them.
\<close>

definition Restore :: "'ctx \<Rightarrow> 's3 \<Rightarrow> Service \<Rightarrow> 'binding \<Rightarrow> string \<Rightarrow> world \<Rightarrow> error option \<times> world" where
  "Restore ctx s3 service binding objectPath w =
     (let w1 = RestoreQueue service w;
          w2 = Errorln ''restoring redis is not supported, please contact your redis database administrator'' w1;
          filename = Base objectPath;
          w3 = RestoreFailure service filename w2
      in (Some (Errorf ''redis restore: unsupported''), w3))"


section \<open>Configuration: \<^verbatim>\<open>config/config.go\<close>\<close>

record TeamsNotificationConfig =
  Teams_Webhook :: string
  Teams_Events :: "string list"

record NotificationConfig =
  Teams :: TeamsNotificationConfig

record S3Config =
  S3_DisableSSL :: bool
  S3_SkipSSLVerification :: bool
  S3_ServiceType :: string
  S3_ServiceLabel :: string
  S3_ServiceName :: string
  S3_BucketName :: string
  S3_EncryptionKey :: string
  S3_Host :: string
  S3_AccessKey :: string
  S3_SecretKey :: string

text \<open>
  A Go map is a finite map; a map field can also be \<^verbatim>\<open>nil\<close>, which is \<open>None\<close>. Reading a
  nil map gives the zero value, writing to it panics.
\<close>

record Config =
  Port :: int
  LogLevel :: string
  LoggingTimestamp :: bool
  Username :: string
  Password :: string
  DisableWeb :: bool
  DisableMetrics :: bool
  DisableRestore :: bool
  UnprotectedMetrics :: bool
  Notifications :: NotificationConfig
  S3 :: S3Config
  Services :: "(string, Service) fmap option"
  Foreground :: bool

definition zero_Config :: Config where
  "zero_Config =
     \<lparr>Port = 0, LogLevel = [], LoggingTimestamp = False, Username = [], Password = [],
      DisableWeb = False, DisableMetrics = False, DisableRestore = False,
      UnprotectedMetrics = False,
      Notifications = \<lparr>Teams = \<lparr>Teams_Webhook = [], Teams_Events = []\<rparr>\<rparr>,
      S3 = \<lparr>S3_DisableSSL = False, S3_SkipSSLVerification = False, S3_ServiceType = [],
            S3_ServiceLabel = [], S3_ServiceName = [], S3_BucketName = [],
            S3_EncryptionKey = [], S3_Host = [], S3_AccessKey = [], S3_SecretKey = []\<rparr>,
      Services = None, Foreground = False\<rparr>"

text \<open>
  What \<^verbatim>\<open>new\<close> reads from outside: the config file, the environment variables and the
  two library functions \<^verbatim>\<open>json.Unmarshal\<close> and \<^verbatim>\<open>strconv.Atoi\<close>. The names of the
  environment variables are constants declared outside the sources at hand, so the
  environment is a function on the constants themselves; an unset variable reads as the
  empty string. \<open>unmarshal data c\<close> is the struct that \<^verbatim>\<open>json.Unmarshal(data, &c)\<close> leaves in
  \<open>c\<close>, or its error. \<^verbatim>\<open>log.Fatalln\<close> ends the process.
\<close>

datatype config_file = NoFile | Unreadable error | FileData string

datatype env_var =
    BackmanConfig | BackmanPort | BackmanUsername | BackmanPassword
  | BackmanEncryptionKey | BackmanTeamsWebhook | BackmanTeamsEvents

datatype failure = Fatal error | Panic string

text \<open>\<^verbatim>\<open>strings.Split(s, ",")\<close>: the pieces of \<open>s\<close> between commas.\<close>

fun Split_comma :: "string \<Rightarrow> string list" where
  "Split_comma [] = [[]]"
| "Split_comma (c # cs) =
     (if c = CHR '','' then [] # Split_comma cs
      else (case Split_comma cs of [] \<Rightarrow> [[c]] | x # xs \<Rightarrow> (c # x) # xs))"

text \<open>
  \<^verbatim>\<open>strconv.Atoi\<close> on a 64-bit platform, as the value it returns beside its error (which
  \<^verbatim>\<open>new\<close> drops): 0 on a syntax error, the nearest bound on a range error. The unsigned
  parser stops with a range error as soon as the value leaves 64 bits, before it looks
  at the characters that follow.
\<close>

definition isdigit :: "char \<Rightarrow> bool" where
  "isdigit c = (48 \<le> (of_char c :: nat) \<and> (of_char c :: nat) \<le> 57)"

definition digit :: "char \<Rightarrow> nat" where
  "digit c = of_char c - 48"

datatype uint_result = SyntaxErr | RangeErr | Value nat

fun ParseUint10_loop :: "nat \<Rightarrow> string \<Rightarrow> uint_result" where
  "ParseUint10_loop n [] = Value n"
| "ParseUint10_loop n (c # cs) =
     (if \<not> isdigit c then SyntaxErr
      else if n \<ge> (2 ^ 64 - 1) div 10 + 1 then RangeErr
      else if n * 10 + digit c > 2 ^ 64 - 1 then RangeErr
      else ParseUint10_loop (n * 10 + digit c) cs)"

definition ParseUint10 :: "string \<Rightarrow> uint_result" where
  "ParseUint10 s = (if s = [] then SyntaxErr else ParseUint10_loop 0 s)"

definition ParseInt10 :: "string \<Rightarrow> int" where
  "ParseInt10 s =
     (if s = [] then 0
      else let neg = (hd s = CHR ''-'');
               s' = (if hd s = CHR ''+'' \<or> hd s = CHR ''-'' then tl s else s)
           in case ParseUint10 s' of
                SyntaxErr \<Rightarrow> 0
              | RangeErr \<Rightarrow> (if neg then - (2 ^ 63) else 2 ^ 63 - 1)
              | Value un \<Rightarrow>
                  if \<not> neg \<and> un \<ge> 2 ^ 63 then 2 ^ 63 - 1
                  else if neg \<and> un > 2 ^ 63 then - (2 ^ 63)
                  else if neg then - int un else int un)"

definition Atoi :: "string \<Rightarrow> int" where
  "Atoi s =
     (if 0 < length s \<and> length s < 19 then
        let s' = (if hd s = CHR ''-'' \<or> hd s = CHR ''+'' then tl s else s)
        in if s' = [] then 0
           else if \<not> list_all isdigit s' then 0
           else let n = int (foldl (\<lambda>n ch. n * 10 + digit ch) 0 s')
                in if hd s = CHR ''-'' then - n else n
      else ParseInt10 s)"

text \<open>
  The first stage of \<^verbatim>\<open>new\<close>: the config starts as the zero struct with an empty, non-nil
  map of services, and the file is decoded into it when \<^verbatim>\<open>os.Stat\<close> finds it.
\<close>

definition new_load_file :: "(string \<Rightarrow> Config \<Rightarrow> error + Config) \<Rightarrow> config_file \<Rightarrow> failure + Config" where
  "new_load_file unmarshal file =
     (let config = zero_Config\<lparr>Services := Some fmempty\<rparr>
      in case file of
           NoFile \<Rightarrow> Inr config
         | Unreadable e \<Rightarrow> Inl (Fatal e)
         | FileData data \<Rightarrow>
             (case unmarshal data config of
                Inl e \<Rightarrow> Inl (Fatal e)
              | Inr c \<Rightarrow> Inr c))"

text \<open>
  The body of the loop over the services of the environment config. Every statement
  \<^verbatim>\<open>if cond { merged.F = serviceConfig.F }\<close> writes a field of its own, so the sequence of
  statements is one record update with a conditional per field.
  \<^verbatim>\<open>serviceConfig.Timeout.Seconds() > 1\<close> compares the float
  \<open>float64(d / 10^9) + float64(d % 10^9) / 10^9\<close> of a duration of \<open>d\<close> nanoseconds with 1.
  The first summand is a whole number and the second, when it is not 0, is at least
  \<open>10^-9\<close>, far above the spacing of floats near 1; so the comparison holds exactly when
  \<open>d > 10^9\<close>.
\<close>

definition mergeService :: "Service \<Rightarrow> Service \<Rightarrow> Service" where
  "mergeService mergedServiceConfig serviceConfig =
     mergedServiceConfig
       \<lparr>Schedule := (if length (Schedule serviceConfig) > 0 then Schedule serviceConfig
                     else Schedule mergedServiceConfig),
        Timeout := (if Timeout serviceConfig > 1000000000 then Timeout serviceConfig
                    else Timeout mergedServiceConfig),
        Retention := (Retention mergedServiceConfig)
          \<lparr>Retention_Days :=
             (if Retention_Days (Retention serviceConfig) > 0
              then Retention_Days (Retention serviceConfig)
              else Retention_Days (Retention mergedServiceConfig)),
           Retention_Files :=
             (if Retention_Files (Retention serviceConfig) > 0
              then Retention_Files (Retention serviceConfig)
              else Retention_Files (Retention mergedServiceConfig))\<rparr>,
        DirectS3 := (if DirectS3 serviceConfig then DirectS3 serviceConfig
                     else DirectS3 mergedServiceConfig),
        DisableColumnStatistics :=
          (if DisableColumnStatistics serviceConfig then DisableColumnStatistics serviceConfig
           else DisableColumnStatistics mergedServiceConfig),
        LogStdErr := (if LogStdErr serviceConfig then LogStdErr serviceConfig
                      else LogStdErr mergedServiceConfig),
        ForceImport := (if ForceImport serviceConfig then ForceImport serviceConfig
                        else ForceImport mergedServiceConfig),
        LocalBackupPath :=
          (if length (LocalBackupPath serviceConfig) > 0 then LocalBackupPath serviceConfig
           else LocalBackupPath mergedServiceConfig),
        IgnoreTables :=
          (if length (IgnoreTables serviceConfig) > 0 then IgnoreTables serviceConfig
           else IgnoreTables mergedServiceConfig),
        BackupOptions :=
          (if length (BackupOptions serviceConfig) > 0 then BackupOptions serviceConfig
           else BackupOptions mergedServiceConfig),
        RestoreOptions :=
          (if length (RestoreOptions serviceConfig) > 0 then RestoreOptions serviceConfig
           else RestoreOptions mergedServiceConfig),
        Binding := (Binding mergedServiceConfig)
          \<lparr>Binding_Type :=
             (if length (Binding_Type (Binding serviceConfig)) > 0
              then Binding_Type (Binding serviceConfig)
              else Binding_Type (Binding mergedServiceConfig)),
           Binding_Provider :=
             (if length (Binding_Provider (Binding serviceConfig)) > 0
              then Binding_Provider (Binding serviceConfig)
              else Binding_Provider (Binding mergedServiceConfig)),
           Binding_Host :=
             (if length (Binding_Host (Binding serviceConfig)) > 0
              then Binding_Host (Binding serviceConfig)
              else Binding_Host (Binding mergedServiceConfig)),
           Binding_Port :=
             (if Binding_Port (Binding serviceConfig) > 0
              then Binding_Port (Binding serviceConfig)
              else Binding_Port (Binding mergedServiceConfig)),
           Binding_URI :=
             (if length (Binding_URI (Binding serviceConfig)) > 0
              then Binding_URI (Binding serviceConfig)
              else Binding_URI (Binding mergedServiceConfig)),
           Binding_Username :=
             (if length (Binding_Username (Binding serviceConfig)) > 0
              then Binding_Username (Binding serviceConfig)
              else Binding_Username (Binding mergedServiceConfig)),
           Binding_Password :=
             (if length (Binding_Password (Binding serviceConfig)) > 0
              then Binding_Password (Binding serviceConfig)
              else Binding_Password (Binding mergedServiceConfig)),
           Binding_Database :=
             (if length (Binding_Database (Binding serviceConfig)) > 0
              then Binding_Database (Binding serviceConfig)
              else Binding_Database (Binding mergedServiceConfig))\<rparr>\<rparr>"

text \<open>
  The loop \<^verbatim>\<open>for serviceName, serviceConfig := range envConfig.Services\<close>. Each round
  reads and writes the entry of its own key only, so the order of the rounds does not
  matter and the loop is the map of its body over the entries, laid over the services
  of the file. The first round panics when the map of the config is nil.
\<close>

definition lookup_service :: "(string, Service) fmap option \<Rightarrow> string \<Rightarrow> Service" where
  "lookup_service m name =
     (case m of None \<Rightarrow> zero_Service
      | Some sm \<Rightarrow> (case fmlookup sm name of None \<Rightarrow> zero_Service | Some s \<Rightarrow> s))"

definition merge_services ::
  "(string, Service) fmap option \<Rightarrow> (string, Service) fmap option \<Rightarrow> failure + (string, Service) fmap option" where
  "merge_services services envServices =
     (case envServices of
        None \<Rightarrow> Inr services
      | Some es \<Rightarrow>
          if fmdom es = {||} then Inr services
          else (case services of
                  None \<Rightarrow> Inl (Panic ''assignment to entry in nil map'')
                | Some sm \<Rightarrow>
                    Inr (Some (sm ++\<^sub>f
                      fmmap_keys (\<lambda>serviceName serviceConfig.
                        mergeService (lookup_service services serviceName) serviceConfig) es))))"

text \<open>
  The second stage: the values of the environment config are laid over the config, one
  guarded assignment per field (\<open>merge_values\<close>), and then the services.
\<close>

definition merge_values :: "Config \<Rightarrow> Config \<Rightarrow> Config" where
  "merge_values config envConfig =
     config
       \<lparr>Port := (if Port envConfig > 0 then Port envConfig else Port config),
        LogLevel := (if length (LogLevel envConfig) > 0 then LogLevel envConfig
                     else LogLevel config),
        LoggingTimestamp := (if LoggingTimestamp envConfig then LoggingTimestamp envConfig
                             else LoggingTimestamp config),
        Username := (if length (Username envConfig) > 0 then Username envConfig
                     else Username config),
        Password := (if length (Password envConfig) > 0 then Password envConfig
                     else Password config),
        DisableWeb := (if DisableWeb envConfig then DisableWeb envConfig
                       else DisableWeb config),
        DisableMetrics := (if DisableMetrics envConfig then DisableMetrics envConfig
                           else DisableMetrics config),
        DisableRestore := (if DisableRestore envConfig then DisableRestore envConfig
                           else DisableRestore config),
        UnprotectedMetrics :=
          (if UnprotectedMetrics envConfig then UnprotectedMetrics envConfig
           else UnprotectedMetrics config),
        Notifications := (Notifications config)
          \<lparr>Teams := (Teams (Notifications config))
             \<lparr>Teams_Webhook :=
                (if length (Teams_Webhook (Teams (Notifications envConfig))) > 0
                 then Teams_Webhook (Teams (Notifications envConfig))
                 else Teams_Webhook (Teams (Notifications config))),
              Teams_Events :=
                (if length (Teams_Events (Teams (Notifications envConfig))) > 0
                 then Teams_Events (Teams (Notifications envConfig))
                 else Teams_Events (Teams (Notifications config)))\<rparr>\<rparr>,
        S3 := (S3 config)
          \<lparr>S3_DisableSSL := (if S3_DisableSSL (S3 envConfig) then S3_DisableSSL (S3 envConfig)
                             else S3_DisableSSL (S3 config)),
           S3_SkipSSLVerification :=
             (if S3_SkipSSLVerification (S3 envConfig) then S3_SkipSSLVerification (S3 envConfig)
              else S3_SkipSSLVerification (S3 config)),
           S3_ServiceType :=
             (if length (S3_ServiceType (S3 envConfig)) > 0 then S3_ServiceType (S3 envConfig)
              else S3_ServiceType (S3 config)),
           S3_ServiceLabel :=
             (if length (S3_ServiceLabel (S3 envConfig)) > 0 then S3_ServiceLabel (S3 envConfig)
              else S3_ServiceLabel (S3 config)),
           S3_ServiceName :=
             (if length (S3_ServiceName (S3 envConfig)) > 0 then S3_ServiceName (S3 envConfig)
              else S3_ServiceName (S3 config)),
           S3_BucketName :=
             (if length (S3_BucketName (S3 envConfig)) > 0 then S3_BucketName (S3 envConfig)
              else S3_BucketName (S3 config)),
           S3_EncryptionKey :=
             (if length (S3_EncryptionKey (S3 envConfig)) > 0 then S3_EncryptionKey (S3 envConfig)
              else S3_EncryptionKey (S3 config)),
           S3_Host := (if length (S3_Host (S3 envConfig)) > 0 then S3_Host (S3 envConfig)
                       else S3_Host (S3 config)),
           S3_AccessKey :=
             (if length (S3_AccessKey (S3 envConfig)) > 0 then S3_AccessKey (S3 envConfig)
              else S3_AccessKey (S3 config)),
           S3_SecretKey :=
             (if length (S3_SecretKey (S3 envConfig)) > 0 then S3_SecretKey (S3 envConfig)
              else S3_SecretKey (S3 config))\<rparr>\<rparr>"

definition new_merge :: "Config \<Rightarrow> Config \<Rightarrow> failure + Config" where
  "new_merge config envConfig =
     (let config = merge_values config envConfig
      in case merge_services (Services config) (Services envConfig) of
           Inl f \<Rightarrow> Inl f
         | Inr services \<Rightarrow> Inr (config\<lparr>Services := services\<rparr>))"

text \<open>
  The last stage: the port and the log level when they are missing, and the values of
  the dedicated environment variables when these are set.
\<close>

definition new_defaults :: "(env_var \<Rightarrow> string) \<Rightarrow> Config \<Rightarrow> Config" where
  "new_defaults Getenv config =
     config
       \<lparr>Port := (if Port config = 0 then Atoi (Getenv BackmanPort) else Port config),
        LogLevel := (if length (LogLevel config) = 0 then ''info'' else LogLevel config),
        Username := (if Getenv BackmanUsername \<noteq> [] then Getenv BackmanUsername
                     else Username config),
        Password := (if Getenv BackmanPassword \<noteq> [] then Getenv BackmanPassword
                     else Password config),
        S3 := (S3 config)
          \<lparr>S3_EncryptionKey :=
             (if Getenv BackmanEncryptionKey \<noteq> [] then Getenv BackmanEncryptionKey
              else S3_EncryptionKey (S3 config))\<rparr>,
        Notifications := (Notifications config)
          \<lparr>Teams := (Teams (Notifications config))
             \<lparr>Teams_Webhook :=
                (if Getenv BackmanTeamsWebhook \<noteq> [] then Getenv BackmanTeamsWebhook
                 else Teams_Webhook (Teams (Notifications config))),
              Teams_Events :=
                (if Getenv BackmanTeamsEvents \<noteq> []
                 then Split_comma (Getenv BackmanTeamsEvents)
                 else Teams_Events (Teams (Notifications config)))\<rparr>\<rparr>\<rparr>"

text \<open>
  \<^verbatim>\<open>new\<close> itself, with the end of the process as a value
  beside the config: file, then environment config when the variable is not empty,
  then defaults and dedicated variables.
\<close>

definition new ::
  "(string \<Rightarrow> Config \<Rightarrow> error + Config) \<Rightarrow> config_file \<Rightarrow> (env_var \<Rightarrow> string) \<Rightarrow> failure + Config" where
  "new unmarshal file Getenv =
     (case new_load_file unmarshal file of
        Inl f \<Rightarrow> Inl f
      | Inr config \<Rightarrow>
          let env = Getenv BackmanConfig
          in if length env > 0 then
               (case unmarshal env zero_Config of
                  Inl e \<Rightarrow> Inl (Fatal e)
                | Inr envConfig \<Rightarrow>
                    (case new_merge config envConfig of
                       Inl f \<Rightarrow> Inl f
                     | Inr merged \<Rightarrow> Inr (new_defaults Getenv merged)))
             else Inr (new_defaults Getenv config))"

section \<open>The settings that \<^verbatim>\<open>new\<close> resolves\<close>

text \<open>
  The fields of the config struct that the overlay assigns, by type. Each text setting
  comes with the dedicated environment variable that the last stage reads for it, if
  there is one. \<open>Foreground\<close> and the \<open>Name\<close> of a service are the fields that no stage of
  \<^verbatim>\<open>new\<close> assigns.
\<close>

definition config_flags :: "(Config \<Rightarrow> bool) list" where
  "config_flags =
     [LoggingTimestamp, DisableWeb, DisableMetrics, DisableRestore, UnprotectedMetrics,
      (\<lambda>c. S3_DisableSSL (S3 c)), (\<lambda>c. S3_SkipSSLVerification (S3 c))]"

definition config_texts :: "((Config \<Rightarrow> string) \<times> env_var option) list" where
  "config_texts =
     [(LogLevel, None),
      (Username, Some BackmanUsername),
      (Password, Some BackmanPassword),
      ((\<lambda>c. Teams_Webhook (Teams (Notifications c))), Some BackmanTeamsWebhook),
      ((\<lambda>c. S3_ServiceType (S3 c)), None),
      ((\<lambda>c. S3_ServiceLabel (S3 c)), None),
      ((\<lambda>c. S3_ServiceName (S3 c)), None),
      ((\<lambda>c. S3_BucketName (S3 c)), None),
      ((\<lambda>c. S3_EncryptionKey (S3 c)), Some BackmanEncryptionKey),
      ((\<lambda>c. S3_Host (S3 c)), None),
      ((\<lambda>c. S3_AccessKey (S3 c)), None),
      ((\<lambda>c. S3_SecretKey (S3 c)), None)]"

definition Events :: "Config \<Rightarrow> string list" where
  "Events c = Teams_Events (Teams (Notifications c))"

definition service_flags :: "(Service \<Rightarrow> bool) list" where
  "service_flags = [DirectS3, DisableColumnStatistics, LogStdErr, ForceImport]"

definition service_texts :: "(Service \<Rightarrow> string) list" where
  "service_texts =
     [Schedule, LocalBackupPath,
      (\<lambda>s. Binding_Type (Binding s)), (\<lambda>s. Binding_Provider (Binding s)),
      (\<lambda>s. Binding_Host (Binding s)), (\<lambda>s. Binding_URI (Binding s)),
      (\<lambda>s. Binding_Username (Binding s)), (\<lambda>s. Binding_Password (Binding s)),
      (\<lambda>s. Binding_Database (Binding s))]"

definition service_lists :: "(Service \<Rightarrow> string list) list" where
  "service_lists = [IgnoreTables, BackupOptions, RestoreOptions]"

definition service_numbers :: "(Service \<Rightarrow> int) list" where
  "service_numbers =
     [(\<lambda>s. Retention_Days (Retention s)), (\<lambda>s. Retention_Files (Retention s)),
      (\<lambda>s. Binding_Port (Binding s))]"

section \<open>The REST handlers: \<^verbatim>\<open>router/api/backup.go\<close>\<close>

text \<open>
  \<^verbatim>\<open>url.QueryUnescape\<close>: \<^verbatim>\<open>%XY\<close> becomes the byte with hexadecimal digits \<open>X\<close> and \<open>Y\<close>, a plus
  sign becomes a space; a percent sign that is not followed by two hexadecimal digits
  is an \<^verbatim>\<open>EscapeError\<close> that carries at most three characters from the percent sign on.
\<close>

definition ishex :: "char \<Rightarrow> bool" where
  "ishex c =
     (let n = (of_char c :: nat)
      in (48 \<le> n \<and> n \<le> 57) \<or> (97 \<le> n \<and> n \<le> 102) \<or> (65 \<le> n \<and> n \<le> 70))"

definition unhex :: "char \<Rightarrow> nat" where
  "unhex c =
     (let n = (of_char c :: nat)
      in if 48 \<le> n \<and> n \<le> 57 then n - 48
         else if 97 \<le> n \<and> n \<le> 102 then n - 97 + 10
         else if 65 \<le> n \<and> n \<le> 70 then n - 65 + 10
         else 0)"

fun QueryUnescape :: "string \<Rightarrow> error + string" where
  "QueryUnescape [] = Inr []"
| "QueryUnescape (c # cs) =
     (if c = CHR ''%'' then
        (case cs of
           h1 # h2 # rest \<Rightarrow>
             if ishex h1 \<and> ishex h2 then
               (case QueryUnescape rest of
                  Inl e \<Rightarrow> Inl e
                | Inr t \<Rightarrow> Inr (char_of (unhex h1 * 16 + unhex h2) # t))
             else Inl (EscapeError (take 3 (c # cs)))
         | _ \<Rightarrow> Inl (EscapeError (take 3 (c # cs))))
      else
        (case QueryUnescape cs of
           Inl e \<Rightarrow> Inl e
         | Inr t \<Rightarrow> Inr ((if c = CHR ''+'' then CHR '' '' else c) # t)))"

text \<open>
  The request context gives the path parameters; a missing parameter is the empty
  string.
\<close>

record Context =
  Param :: "string \<Rightarrow> string"

text \<open>
  A response is the status code and the value handed to \<^verbatim>\<open>c.JSON\<close>. A message that is
  formatted from an error value keeps the error: \<open>InvalidServiceName e\<close> is the text
  \<^verbatim>\<open>invalid service name: \<close> followed by the message of \<open>e\<close>, \<open>ErrorText e\<close> is the message
  of \<open>e\<close> alone. The descriptor that \<^verbatim>\<open>getAPIService\<close> builds is of any type.
\<close>

datatype 'd body =
    Text string
  | InvalidServiceName error
  | InvalidFilename error
  | ErrorText error
  | Descriptor 'd
  | NoContent

record 'd response =
  status :: nat
  body :: "'d body"

definition StatusAccepted :: nat where "StatusAccepted = 202"
definition StatusNoContent :: nat where "StatusNoContent = 204"
definition StatusBadRequest :: nat where "StatusBadRequest = 400"
definition StatusNotFound :: nat where "StatusNotFound = 404"
definition StatusInternalServerError :: nat where "StatusInternalServerError = 500"

definition JSON :: "nat \<Rightarrow> 'd body \<Rightarrow> 'd response" where
  "JSON code v = \<lparr>status = code, body = v\<rparr>"

text \<open>
  Modelled from the spec: the Storage Catalog of section 4.4 is not part of the sources
  at hand. It holds the artifacts by key; when its backend is out of reach it cannot
  carry out an operation on an artifact.
\<close>

record catalog =
  objects :: "string \<rightharpoonup> string"
  reachable :: bool

text \<open>
  What a handler can act on beside its response: the state tracker, the catalog, the
  goroutines it has started and the log. A started goroutine is kept as the values its
  closure captured, the service instance and the service name.
\<close>

datatype log_entry =
    Logged error                 \<comment> \<open>\<^verbatim>\<open>log.Errorf("%v", err)\<close>\<close>
  | BackupFailed string error    \<comment> \<open>\<^verbatim>\<open>requested backup for service [%s] failed: %v\<close>\<close>

record api_state =
  api_tracker :: tracker
  api_catalog :: catalog
  goroutines :: "(Service \<times> string) list"
  api_log :: "log_entry list"

definition Errorf_log :: "log_entry \<Rightarrow> api_state \<Rightarrow> api_state" where
  "Errorf_log e st = st\<lparr>api_log := api_log st @ [e]\<rparr>"

text \<open>
  The handler of \<^verbatim>\<open>POST backup/{service_type}/{service_name}\<close>. The functions
  \<^verbatim>\<open>config.IsValidServiceType\<close>, \<^verbatim>\<open>service.GetService\<close> and \<^verbatim>\<open>getAPIService\<close> are declared
  outside the sources at hand and are parameters. The statement \<^verbatim>\<open>go func() {...}()\<close>
  starts a goroutine and goes on at once.
\<close>

definition CreateBackup ::
  "(string \<Rightarrow> bool) \<Rightarrow> (string \<Rightarrow> string \<Rightarrow> Service) \<Rightarrow> (Service \<Rightarrow> 'd) \<Rightarrow>
   Context \<Rightarrow> api_state \<Rightarrow> 'd response \<times> api_state" where
  "CreateBackup IsValidServiceType GetService getAPIService c st =
     (let serviceType = Param c ''service_type''
      in case QueryUnescape (Param c ''service_name'') of
           Inl err \<Rightarrow>
             (JSON StatusBadRequest (InvalidServiceName err), Errorf_log (Logged err) st)
         | Inr serviceName \<Rightarrow>
             if \<not> IsValidServiceType serviceType then
               (JSON StatusBadRequest (Text (''unsupported service type: '' @ serviceType)), st)
             else
               let serviceInstance = GetService serviceType serviceName
               in if length (Name serviceInstance) = 0 then
                    let err = Errorf (''could not find service ['' @ serviceName @ ''] to backup'')
                    in (JSON StatusNotFound (ErrorText err), Errorf_log (Logged err) st)
                  else
                    (JSON StatusAccepted (Descriptor (getAPIService serviceInstance)),
                     st\<lparr>goroutines := goroutines st @ [(serviceInstance, serviceName)]\<rparr>))"

text \<open>
  The body of the goroutine: it calls \<^verbatim>\<open>service.CreateBackup\<close>, a parameter here, and logs
  its error. \<open>run_goroutines\<close> runs the started goroutines to their end, one after the
  other.
\<close>

definition backup_goroutine ::
  "(Service \<Rightarrow> api_state \<Rightarrow> error option \<times> api_state) \<Rightarrow> Service \<times> string \<Rightarrow> api_state \<Rightarrow> api_state" where
  "backup_goroutine service_CreateBackup g st =
     (case service_CreateBackup (fst g) st of
        (None, st') \<Rightarrow> st'
      | (Some err, st') \<Rightarrow> Errorf_log (BackupFailed (snd g) err) st')"

definition run_goroutines ::
  "(Service \<Rightarrow> api_state \<Rightarrow> error option \<times> api_state) \<Rightarrow> api_state \<Rightarrow> api_state" where
  "run_goroutines service_CreateBackup st =
     fold (backup_goroutine service_CreateBackup) (goroutines st) (st\<lparr>goroutines := []\<rparr>)"

text \<open>A request to the handler, followed by the run of what it started.\<close>

definition serve_CreateBackup ::
  "(Service \<Rightarrow> api_state \<Rightarrow> error option \<times> api_state) \<Rightarrow>
   (string \<Rightarrow> bool) \<Rightarrow> (string \<Rightarrow> string \<Rightarrow> Service) \<Rightarrow> (Service \<Rightarrow> 'd) \<Rightarrow>
   Context \<Rightarrow> api_state \<Rightarrow> 'd response \<times> api_state" where
  "serve_CreateBackup service_CreateBackup IsValidServiceType GetService getAPIService c st =
     (case CreateBackup IsValidServiceType GetService getAPIService c st of
        (resp, st') \<Rightarrow> (resp, run_goroutines service_CreateBackup st'))"

text \<open>
  The handler of \<^verbatim>\<open>DELETE backup/{service_type}/{service_name}/{file}\<close>, with
  \<^verbatim>\<open>service.DeleteBackup\<close> as a parameter.
\<close>

definition DeleteBackup ::
  "(string \<Rightarrow> string \<Rightarrow> string \<Rightarrow> api_state \<Rightarrow> error option \<times> api_state) \<Rightarrow>
   Context \<Rightarrow> api_state \<Rightarrow> 'd response \<times> api_state" where
  "DeleteBackup service_DeleteBackup c st =
     (let serviceType = Param c ''service_type''
      in case QueryUnescape (Param c ''service_name'') of
           Inl err \<Rightarrow>
             (JSON StatusBadRequest (InvalidServiceName err), Errorf_log (Logged err) st)
         | Inr serviceName \<Rightarrow>
             (case QueryUnescape (Param c ''file'') of
                Inl err \<Rightarrow>
                  (JSON StatusBadRequest (InvalidFilename err), Errorf_log (Logged err) st)
              | Inr filename \<Rightarrow>
                  (case service_DeleteBackup serviceType serviceName filename st of
                     (Some err, st') \<Rightarrow> (JSON StatusInternalServerError (ErrorText err), st')
                   | (None, st') \<Rightarrow> (\<lparr>status = StatusNoContent, body = NoContent\<rparr>, st'))))"

text \<open>
  Modelled from the spec: \<^verbatim>\<open>service.DeleteBackup\<close> is not part of the sources at hand. By
  sections 4.2 and 4.4 it is a direct delete in the catalog by the key derived from
  type, name and file name, with no use of the state tracker. By sections 4.2 and 8 a
  key that does not exist is a \<open>NotFoundError\<close> and never another failure; a backend
  failure on the delete of an artifact is a \<open>StorageError\<close>.
\<close>

definition Catalog_Delete :: "string \<Rightarrow> catalog \<Rightarrow> error option \<times> catalog" where
  "Catalog_Delete key cat =
     (if objects cat key = None then (Some (NotFoundError key), cat)
      else if \<not> reachable cat then (Some (StorageError key), cat)
      else (None, cat\<lparr>objects := (objects cat)(key := None)\<rparr>))"

definition artifact_key :: "string \<Rightarrow> string \<Rightarrow> string \<Rightarrow> string" where
  "artifact_key serviceType serviceName filename =
     serviceType @ ''/'' @ serviceName @ ''/'' @ filename"

definition spec_DeleteBackup ::
  "string \<Rightarrow> string \<Rightarrow> string \<Rightarrow> api_state \<Rightarrow> error option \<times> api_state" where
  "spec_DeleteBackup serviceType serviceName filename st =
     (case Catalog_Delete (artifact_key serviceType serviceName filename) (api_catalog st) of
        (e, cat) \<Rightarrow> (e, st\<lparr>api_catalog := cat\<rparr>))"

section \<open>The web handler: \<^verbatim>\<open>router/ui/handler.go\<close>\<close>

text \<open>
  The backup struct of the package \<^verbatim>\<open>service\<close>, with the fields that \<^verbatim>\<open>getAPIBackup\<close> reads.
  A \<^verbatim>\<open>time.Time\<close> is a number of nanoseconds.
\<close>

record File =
  File_Key :: string
  File_Filepath :: string
  File_Filename :: string
  File_Size :: int
  File_LastModified :: int

record Backup =
  Backup_Service :: Service
  Backup_Files :: "File list"

record Handler =
  Handler_Services :: "(string, Service list) fmap option"

record PageError =
  Error_Code :: int
  Error_Message :: string
  Error_Time :: int

record Page =
  Page_Title :: string
  Page_Service :: Service
  Page_Services :: "(string, Service list) fmap option"
  Page_AllServices :: "(string, Service list) fmap option"
  Page_Backup :: Backup
  Page_Backups :: "Backup list"
  Page_Error :: PageError

definition newPage :: "Handler \<Rightarrow> string \<Rightarrow> Page" where
  "newPage h title =
     \<lparr>Page_Title = title,
      Page_Service = zero_Service,
      Page_Services = Handler_Services h,
      Page_AllServices = Handler_Services h,
      Page_Backup = \<lparr>Backup_Service = zero_Service, Backup_Files = []\<rparr>,
      Page_Backups = [],
      Page_Error = \<lparr>Error_Code = 0, Error_Message = [], Error_Time = 0\<rparr>\<rparr>"

text \<open>
  The error that the framework hands to the error handler is an \<^verbatim>\<open>*echo.HTTPError\<close>, with
  a code and a message of any type, or another error. The type assertion
  \<^verbatim>\<open>he.Message.(string)\<close> panics on a message that is not a string.
\<close>

datatype message = StringMessage string | OtherMessage

datatype handler_error = HTTPError int message | OtherError error

record rendering =
  render_code :: int
  render_name :: string
  render_page :: Page
  render_logged :: handler_error

definition ErrorHandler :: "Handler \<Rightarrow> handler_error \<Rightarrow> int \<Rightarrow> failure + rendering" where
  "ErrorHandler h err now =
     (case (case err of
              HTTPError code (StringMessage m) \<Rightarrow> Inr (code, m)
            | HTTPError code OtherMessage \<Rightarrow>
                Inl (Panic ''interface conversion: interface {} is not string'')
            | OtherError _ \<Rightarrow> Inr (500, ''Error'')) of
        Inl p \<Rightarrow> Inl p
      | Inr (code, message) \<Rightarrow>
          let page = newPage h ''Error'';
              page = page\<lparr>Page_Error :=
                       \<lparr>Error_Code = code, Error_Message = message, Error_Time = now\<rparr>\<rparr>;
              page = page\<lparr>Page_Services := None, Page_AllServices := None\<rparr>
          in Inr \<lparr>render_code = code, render_name = ''error.html'', render_page = page,
                  render_logged = err\<rparr>)"

text \<open>
  The validator of the basic-auth middleware. \<^verbatim>\<open>subtle.ConstantTimeCompare\<close> returns 0 at
  once for slices of different lengths; otherwise it folds the exclusive or of every pair
  of bytes into one byte and tests that byte with \<^verbatim>\<open>ConstantTimeByteEq\<close>.
\<close>

definition ConstantTimeByteEq :: "8 word \<Rightarrow> 8 word \<Rightarrow> int" where
  "ConstantTimeByteEq x y = uint (drop_bit 31 ((ucast (x XOR y) :: 32 word) - 1))"

definition ConstantTimeCompare :: "8 word list \<Rightarrow> 8 word list \<Rightarrow> int" where
  "ConstantTimeCompare x y =
     (if length x \<noteq> length y then 0
      else ConstantTimeByteEq (fold (\<lambda>(a, b) v. v OR (a XOR b)) (zip x y) 0) 0)"

definition bytes :: "string \<Rightarrow> 8 word list" where
  "bytes s = map of_char s"

definition validator :: "string \<Rightarrow> string \<Rightarrow> string \<Rightarrow> string \<Rightarrow> bool" where
  "validator username password u p =
     (if ConstantTimeCompare (bytes u) (bytes username) = 1
         \<and> ConstantTimeCompare (bytes p) (bytes password) = 1
      then True else False)"

section \<open>Example inputs\<close>

text \<open>
  A config as read from a file and a config as decoded from the environment, and a
  decoder for the two JSON documents that set \<^verbatim>\<open>Foreground\<close> and nothing else.
\<close>

definition example_file :: Config where
  "example_file =
     zero_Config
       \<lparr>Port := 8080, LogLevel := ''debug'', DisableWeb := True,
        Services := Some (fmupd ''db''
          (zero_Service\<lparr>Name := ''db'', Timeout := 30000000000, DirectS3 := True,
                         Schedule := ''@daily''\<rparr>) fmempty)\<rparr>"

definition example_env :: Config where
  "example_env =
     zero_Config
       \<lparr>DisableMetrics := True, Username := ''admin'', Foreground := True,
        Services := Some (fmupd ''db''
          (zero_Service\<lparr>Timeout := 1000000000,
                         Retention := \<lparr>Retention_Days = 7, Retention_Files = 0\<rparr>\<rparr>) fmempty)\<rparr>"

definition quoted :: "string \<Rightarrow> string" where
  "quoted s = CHR 0x22 # s @ [CHR 0x22]"

definition json_Foreground :: "bool \<Rightarrow> string" where
  "json_Foreground b = ''{'' @ quoted ''Foreground'' @ '':'' @ (if b then ''true'' else ''false'') @ ''}''"

definition decode_Foreground :: "string \<Rightarrow> Config \<Rightarrow> error + Config" where
  "decode_Foreground data c =
     (if data = json_Foreground True then Inr (c\<lparr>Foreground := True\<rparr>)
      else if data = json_Foreground False then Inr (c\<lparr>Foreground := False\<rparr>)
      else Inl (Errorf ''unexpected document''))"

definition only_BackmanConfig :: "string \<Rightarrow> env_var \<Rightarrow> string" where
  "only_BackmanConfig doc v = (if v = BackmanConfig then doc else [])"

text \<open>
  A decoder that answers two documents with the example configs, and an environment that
  holds a config document and a password.
\<close>

definition decode_examples :: "string \<Rightarrow> Config \<Rightarrow> error + Config" where
  "decode_examples data c =
     (if data = ''file'' then Inr example_file
      else if data = ''env'' then Inr example_env
      else Inl (Errorf ''unexpected document''))"

definition example_Getenv :: "env_var \<Rightarrow> string" where
  "example_Getenv v =
     (if v = BackmanConfig then ''env''
      else if v = BackmanPassword then ''secret''
      else [])"

text \<open>
  An environment config that names the service itself, and an environment that holds
  nothing but a user name.
\<close>

definition example_env_named :: Config where
  "example_env_named =
     zero_Config\<lparr>Services := Some (fmupd ''db'' (zero_Service\<lparr>Name := ''other''\<rparr>) fmempty)\<rparr>"

definition only_BackmanUsername :: "string \<Rightarrow> env_var \<Rightarrow> string" where
  "only_BackmanUsername user v = (if v = BackmanUsername then user else [])"




definition example_IsValidServiceType :: "string \<Rightarrow> bool" where
  "example_IsValidServiceType t = (t = ''postgres'' \<or> t = ''redis'')"

definition example_GetService :: "string \<Rightarrow> string \<Rightarrow> Service" where
  "example_GetService t n =
     (if t = ''postgres'' \<and> n = ''my db''
      then zero_Service\<lparr>Name := ''my db'',
                         Binding := (Binding zero_Service)\<lparr>Binding_Type := ''postgres''\<rparr>\<rparr>
      else zero_Service)"

definition request :: "string \<Rightarrow> string \<Rightarrow> string \<Rightarrow> Context" where
  "request t n f =
     \<lparr>Param = (\<lambda>p. if p = ''service_type'' then t
                    else if p = ''service_name'' then n
                    else if p = ''file'' then f else [])\<rparr>"

definition api_state0 :: api_state where
  "api_state0 =
     \<lparr>api_tracker = Map.empty,
      api_catalog = \<lparr>objects = Map.empty, reachable = True\<rparr>,
      goroutines = [], api_log = []\<rparr>"

definition failing_backup :: "Service \<Rightarrow> api_state \<Rightarrow> error option \<times> api_state" where
  "failing_backup s st =
     (Some (Errorf ''dump failed''),
      st\<lparr>api_tracker := MarkFailed (key_of s) ''dump failed''
            (MarkRunning (key_of s)
              (case Reserve (key_of s) backup (api_tracker st) of
                 Inl _ \<Rightarrow> api_tracker st | Inr (_, tr) \<Rightarrow> tr))\<rparr>)"

definition succeeding_backup :: "Service \<Rightarrow> api_state \<Rightarrow> error option \<times> api_state" where
  "succeeding_backup s st =
     (None,
      st\<lparr>api_tracker := MarkSucceeded (key_of s) ''dump.gz''
            (MarkRunning (key_of s)
              (case Reserve (key_of s) backup (api_tracker st) of
                 Inl _ \<Rightarrow> api_tracker st | Inr (_, tr) \<Rightarrow> tr))\<rparr>)"


text \<open>
  An execution of the tracker with three reservations for one service, two states of
  the REST layer whose catalog is out of reach, one empty and one that holds an
  artifact, and a web handler that knows a service.
\<close>

definition example_calls :: "tracker_call list" where
  "example_calls =
     [CallReserve (''postgres'', ''db'') backup,
      CallReserve (''postgres'', ''db'') backup,
      CallMarkRunning (''postgres'', ''db''),
      CallReserve (''mysql'', ''shop'') backup,
      CallMarkFailed (''mysql'', ''shop'') ''timeout'',
      CallReserve (''postgres'', ''db'') backup]"


definition unreachable_state :: api_state where
  "unreachable_state = api_state0\<lparr>api_catalog := \<lparr>objects = Map.empty, reachable = False\<rparr>\<rparr>"

definition stored_unreachable_state :: api_state where
  "stored_unreachable_state =
     api_state0\<lparr>api_catalog :=
       \<lparr>objects = [''postgres/db/dump.gz'' \<mapsto> ''data''], reachable = False\<rparr>\<rparr>"


definition example_Handler :: Handler where
  "example_Handler =
     \<lparr>Handler_Services = Some (fmupd ''postgres''
        [zero_Service\<lparr>Name := ''my db''\<rparr>] fmempty)\<rparr>"


section \<open>Properties of the redis executor\<close>

lemma Restore_error:
  "fst (Restore ctx s3 service binding objectPath w) = Some (Errorf ''redis restore: unsupported'')"
  by (simp add: Restore_def Let_def)

lemma RestoreQueue_frame:
  "s3_requests (RestoreQueue service w) = s3_requests w"
  "redis_commands (RestoreQueue service w) = redis_commands w"
  "logs (RestoreQueue service w) = logs w"
  by (simp_all add: RestoreQueue_def split: sum.splits prod.splits)

lemma RestoreFailure_frame:
  "s3_requests (RestoreFailure service f w) = s3_requests w"
  "redis_commands (RestoreFailure service f w) = redis_commands w"
  "logs (RestoreFailure service f w) = logs w"
  by (simp_all add: RestoreFailure_def)

lemma Restore_frame:
  "s3_requests (snd (Restore ctx s3 service binding objectPath w)) = s3_requests w"
  "redis_commands (snd (Restore ctx s3 service binding objectPath w)) = redis_commands w"
  by (simp_all add: Restore_def Let_def RestoreFailure_frame Errorln_def RestoreQueue_frame)

text \<open>
  Claim C2. Every call of the redis executor's \<open>Restore\<close>, whatever its context, S3
  client, service, binding and object path are, returns the same non-nil error, whose
  message says that the operation is unsupported, and does no restore work: it issues
  no request to the object store and no command to the redis instance. Two calls that
  differ only in context, client and binding have the same outcome.
\<close>

theorem redis_Restore_unsupported:
  "fst (Restore ctx s3 service binding objectPath w) = Some (Errorf ''redis restore: unsupported'')
   \<and> s3_requests (snd (Restore ctx s3 service binding objectPath w)) = s3_requests w
   \<and> redis_commands (snd (Restore ctx s3 service binding objectPath w)) = redis_commands w
   \<and> Restore ctx s3 service binding objectPath w = Restore ctx' s3' service binding' objectPath w"
  by (simp add: Restore_error Restore_frame) (simp add: Restore_def)








section \<open>Properties of the state tracker\<close>

lemma in_flight_step:
  assumes "in_flight tr k" "\<not> terminal k c"
  shows "in_flight (snd (step c tr)) k"
  using assms
  by (cases c)
     (auto simp: Reserve_def in_flight_def MarkRunning_def MarkSucceeded_def MarkFailed_def
        set_phase_def Query_def split: option.splits if_splits)

lemma step_busy:
  assumes "in_flight tr k" "reserves k c"
  shows "fst (step c tr) = Busy"
  using assms by (cases c) (auto simp: Reserve_def)

lemma step_granted:
  assumes "\<not> in_flight tr k" "reserves k c"
  shows "fst (step c tr) = Granted \<and> in_flight (snd (step c tr)) k"
  using assms by (cases c) (auto simp: Reserve_def in_flight_def Query_def)

lemma idle_step:
  assumes "\<not> in_flight tr k" "\<not> reserves k c"
  shows "\<not> in_flight (snd (step c tr)) k"
  using assms
  by (cases c)
     (auto simp: Reserve_def in_flight_def MarkRunning_def MarkSucceeded_def MarkFailed_def
        set_phase_def Query_def split: option.splits if_splits)

lemma answers_Cons:
  "answers k tr (c # cs) =
     (if reserves k c then [fst (step c tr)] else []) @ answers k (snd (step c tr)) cs"
  by (simp add: answers_def split: prod.splits)

lemma answers_busy:
  assumes "in_flight tr k" "\<forall>c\<in>set calls. \<not> terminal k c"
  shows "answers k tr calls = replicate (length (filter (reserves k) calls)) Busy"
  using assms
proof (induction calls arbitrary: tr)
  case Nil
  then show ?case by (simp add: answers_def)
next
  case (Cons c cs)
  from Cons.prems have fl: "in_flight (snd (step c tr)) k"
    by (simp add: in_flight_step)
  from Cons.prems have "\<forall>c\<in>set cs. \<not> terminal k c" by simp
  with fl have "answers k (snd (step c tr)) cs = replicate (length (filter (reserves k) cs)) Busy"
    by (rule Cons.IH)
  with Cons.prems show ?case
    by (simp add: answers_Cons step_busy)
qed

lemma answers_idle:
  assumes "\<not> in_flight tr k" "\<forall>c\<in>set calls. \<not> terminal k c"
  shows "answers k tr calls =
           (if filter (reserves k) calls = [] then []
            else Granted # replicate (length (filter (reserves k) calls) - 1) Busy)"
  using assms
proof (induction calls arbitrary: tr)
  case Nil
  then show ?case by (simp add: answers_def)
next
  case (Cons c cs)
  from Cons.prems have nt: "\<forall>c\<in>set cs. \<not> terminal k c" by simp
  show ?case
  proof (cases "reserves k c")
    case True
    with Cons.prems have g: "fst (step c tr) = Granted" and fl: "in_flight (snd (step c tr)) k"
      by (simp_all add: step_granted)
    from answers_busy [OF fl nt] True g show ?thesis
      by (simp add: answers_Cons)
  next
    case False
    with Cons.prems have "\<not> in_flight (snd (step c tr)) k"
      by (simp add: idle_step)
    from Cons.IH [OF this nt] False show ?thesis
      by (simp add: answers_Cons)
  qed
qed

text \<open>
  Claim C3. Take any execution in which the key \<open>k\<close> is not in flight at the start and no
  operation of \<open>k\<close> reaches a terminal phase, with at least one reservation for \<open>k\<close>.
  Whatever the order of the calls, and whatever happens to other keys in between, the
  first reservation for \<open>k\<close> is granted and every other one is answered \<open>Busy\<close>: exactly
  one succeeds. While an operation is in flight a reservation is refused, and once the
  operation is marked failed, or succeeded after running, the next reservation is
  granted again.
\<close>

theorem single_flight:
  assumes "\<not> in_flight tr k"
    and "\<forall>c\<in>set calls. \<not> terminal k c"
    and "filter (reserves k) calls \<noteq> []"
  shows "answers k tr calls = Granted # replicate (length (filter (reserves k) calls) - 1) Busy
       \<and> length (filter (\<lambda>out. out = Granted) (answers k tr calls)) = 1
       \<and> (\<forall>e kind. in_flight tr' k \<longrightarrow>
            fst (step (CallReserve k kind) tr') = Busy
            \<and> fst (step (CallReserve k kind) (MarkFailed k e tr')) = Granted)
       \<and> (\<forall>a kind. Query tr' k = running \<longrightarrow>
            fst (step (CallReserve k kind) (MarkSucceeded k a tr')) = Granted)"
proof -
  from answers_idle [OF assms(1,2)] assms(3)
  have a: "answers k tr calls = Granted # replicate (length (filter (reserves k) calls) - 1) Busy"
    by simp
  then have b: "length (filter (\<lambda>out. out = Granted) (answers k tr calls)) = 1"
    by simp
  have c: "\<forall>e kind. in_flight tr' k \<longrightarrow>
            fst (step (CallReserve k kind) tr') = Busy
            \<and> fst (step (CallReserve k kind) (MarkFailed k e tr')) = Granted"
    by (auto simp: Reserve_def in_flight_def MarkFailed_def set_phase_def Query_def
          split: option.splits)
  have d: "\<forall>a kind. Query tr' k = running \<longrightarrow>
            fst (step (CallReserve k kind) (MarkSucceeded k a tr')) = Granted"
    by (auto simp: Reserve_def in_flight_def MarkSucceeded_def set_phase_def Query_def
          split: option.splits)
  from a b c d show ?thesis by blast
qed

theorem single_flight_witness:
  "\<not> in_flight Map.empty (''postgres'', ''db'')
   \<and> list_all (\<lambda>c. \<not> terminal (''postgres'', ''db'') c) example_calls
   \<and> filter (reserves (''postgres'', ''db'')) example_calls \<noteq> []
   \<and> answers (''postgres'', ''db'') Map.empty example_calls = [Granted, Busy, Busy]
   \<and> run Map.empty example_calls = [Granted, Busy, Done, Granted, Done, Busy]"
proof -
  have 1: "\<not> in_flight Map.empty (''postgres'', ''db'')"
    by (simp add: in_flight_def Query_def)
  have 2: "\<forall>c\<in>set example_calls. \<not> terminal (''postgres'', ''db'') c"
    by (simp add: example_calls_def)
  have 3: "filter (reserves (''postgres'', ''db'')) example_calls \<noteq> []"
    by (simp add: example_calls_def)
  have 4: "length (filter (reserves (''postgres'', ''db'')) example_calls) = 3"
    by (simp add: example_calls_def)
  from single_flight [OF 1 2 3] 4
  have 5: "answers (''postgres'', ''db'') Map.empty example_calls = [Granted, Busy, Busy]"
    by (simp add: numeral_3_eq_3)
  have 6: "run Map.empty example_calls = [Granted, Busy, Done, Granted, Done, Busy]"
    by (simp add: example_calls_def Reserve_def in_flight_def Query_def MarkRunning_def
          MarkFailed_def set_phase_def)
  from 2 have 7: "list_all (\<lambda>c. \<not> terminal (''postgres'', ''db'') c) example_calls"
    by (simp add: list_all_iff)
  from 1 7 3 5 6 show ?thesis by blast
qed


section \<open>Properties of the configuration\<close>

lemma mergeService_zero: "mergeService s zero_Service = s"
  by (simp add: mergeService_def zero_Service_def)

lemma fmdom_empty_lookup: "fmdom es = {||} \<Longrightarrow> fmlookup es name = None"
  by (metis fmdom_notD fempty_iff)

lemma fmlookup_overlay:
  "fmlookup (sm ++\<^sub>f fmmap_keys f es) name =
     (case fmlookup es name of None \<Rightarrow> fmlookup sm name | Some sc \<Rightarrow> Some (f name sc))"
proof (cases "fmlookup es name")
  case None
  then have "name |\<notin>| fmdom es" by (simp add: fmdom_notI)
  with None show ?thesis by simp
next
  case (Some sc)
  then have "name |\<in>| fmdom es" by (simp add: fmdomI)
  with Some show ?thesis by simp
qed

lemma lookup_merge_services:
  assumes "merge_services services envServices = Inr m"
  shows "lookup_service m name =
         mergeService (lookup_service services name) (lookup_service envServices name)"
proof (cases envServices)
  case None
  with assms show ?thesis
    by (simp add: merge_services_def lookup_service_def mergeService_zero)
next
  case (Some es)
  show ?thesis
  proof (cases "fmdom es = {||}")
    case True
    with assms Some show ?thesis
      by (simp add: merge_services_def lookup_service_def mergeService_zero fmdom_empty_lookup)
  next
    case False
    with assms Some obtain sm where sm: "services = Some sm"
      and m: "m = Some (sm ++\<^sub>f fmmap_keys (\<lambda>serviceName serviceConfig.
                        mergeService (lookup_service services serviceName) serviceConfig) es)"
      by (auto simp: merge_services_def split: option.splits)
    show ?thesis
      by (simp add: m Some lookup_service_def fmlookup_overlay sm mergeService_zero
               del: fmlookup_add fmlookup_fmmap_keys split: option.splits)
  qed
qed

lemma new_merge_Inr:
  assumes "new_merge config envConfig = Inr merged"
  shows "\<exists>services. merge_services (Services config) (Services envConfig) = Inr services
           \<and> merged = (merge_values config envConfig)\<lparr>Services := services\<rparr>"
proof -
  have "Services (merge_values config envConfig) = Services config"
    by (simp add: merge_values_def)
  with assms show ?thesis
    by (cases "merge_services (Services config) (Services envConfig)")
       (simp_all add: new_merge_def Let_def)
qed

lemma new_merge_lookup:
  assumes "new_merge config envConfig = Inr merged"
  shows "lookup_service (Services merged) name =
         mergeService (lookup_service (Services config) name)
           (lookup_service (Services envConfig) name)"
proof -
  from new_merge_Inr [OF assms] obtain services
    where s: "merge_services (Services config) (Services envConfig) = Inr services"
      and m: "merged = (merge_values config envConfig)\<lparr>Services := services\<rparr>"
    by blast
  from m have "Services merged = services" by simp
  with lookup_merge_services [OF s] show ?thesis by simp
qed

lemma merge_values_keeps_flags:
  "\<forall>b\<in>set (Foreground # config_flags).
     b config \<longrightarrow> b ((merge_values config envConfig)\<lparr>Services := sv\<rparr>)"
  by (simp add: merge_values_def config_flags_def)

lemma merge_values_Foreground:
  "Foreground ((merge_values config envConfig)\<lparr>Services := sv\<rparr>) = Foreground config"
  by (simp add: merge_values_def)

lemma merge_values_texts:
  "\<forall>f\<in>set (map fst config_texts).
     f ((merge_values config envConfig)\<lparr>Services := sv\<rparr>) =
       (if f envConfig = [] then f config else f envConfig)"
  by (simp add: merge_values_def config_texts_def)

lemma merge_values_Events:
  "Events ((merge_values config envConfig)\<lparr>Services := sv\<rparr>) =
     (if Events envConfig = [] then Events config else Events envConfig)"
  by (simp add: merge_values_def Events_def)

lemma merge_values_Port:
  "Port ((merge_values config envConfig)\<lparr>Services := sv\<rparr>) =
     (if Port envConfig > 0 then Port envConfig else Port config)"
  by (simp add: merge_values_def)

lemma mergeService_Timeout:
  "Timeout (mergeService s sc) = (if Timeout sc > 1000000000 then Timeout sc else Timeout s)"
  by (simp add: mergeService_def)

lemma mergeService_keeps:
  "(\<forall>b\<in>set service_flags. b s \<longrightarrow> b (mergeService s sc))
   \<and> Timeout (mergeService s sc) = (if Timeout sc > 1000000000 then Timeout sc else Timeout s)
   \<and> (\<forall>f\<in>set service_texts. f sc = [] \<longrightarrow> f (mergeService s sc) = f s)
   \<and> (\<forall>f\<in>set service_lists. f sc = [] \<longrightarrow> f (mergeService s sc) = f s)
   \<and> (\<forall>g\<in>set service_numbers. g sc \<le> 0 \<longrightarrow> g (mergeService s sc) = g s)"
  by (simp add: mergeService_def service_flags_def service_texts_def service_lists_def
        service_numbers_def)

lemma mergeService_takes:
  "(\<forall>b\<in>set service_flags. b sc \<longrightarrow> b (mergeService s sc))
   \<and> (Timeout sc > 1000000000 \<longrightarrow> Timeout (mergeService s sc) = Timeout sc)
   \<and> (\<forall>f\<in>set service_texts. f sc \<noteq> [] \<longrightarrow> f (mergeService s sc) = f sc)
   \<and> (\<forall>f\<in>set service_lists. f sc \<noteq> [] \<longrightarrow> f (mergeService s sc) = f sc)
   \<and> (\<forall>g\<in>set service_numbers. g sc > 0 \<longrightarrow> g (mergeService s sc) = g sc)"
  by (simp add: mergeService_def service_flags_def service_texts_def service_lists_def
        service_numbers_def)

lemma mergeService_Name: "Name (mergeService s sc) = Name s"
  by (simp add: mergeService_def)

lemma new_defaults_flags:
  "\<forall>b\<in>set (Foreground # config_flags). b (new_defaults Getenv config) = b config"
  by (simp add: new_defaults_def config_flags_def)

lemma new_defaults_Services: "Services (new_defaults Getenv config) = Services config"
  by (simp add: new_defaults_def)

lemma new_defaults_texts:
  "\<forall>(f, v)\<in>set config_texts. f config \<noteq> [] \<longrightarrow>
      f (new_defaults Getenv config) =
        (case v of None \<Rightarrow> f config
         | Some x \<Rightarrow> if Getenv x \<noteq> [] then Getenv x else f config)"
  by (simp add: new_defaults_def config_texts_def)

lemma new_defaults_Events:
  "Events (new_defaults Getenv config) =
     (if Getenv BackmanTeamsEvents \<noteq> [] then Split_comma (Getenv BackmanTeamsEvents)
      else Events config)"
  by (simp add: new_defaults_def Events_def)

lemma new_defaults_Port:
  "Port config \<noteq> 0 \<Longrightarrow> Port (new_defaults Getenv config) = Port config"
  by (simp add: new_defaults_def)

lemma example_merge_ex: "\<exists>m. new_merge example_file example_env = Inr m"
  by (simp add: new_merge_def Let_def merge_services_def merge_values_def example_file_def example_env_def zero_Config_def)

text \<open>
  Claim C10. The overlay of the environment config never resets a setting to its zero
  value. Every boolean option that is true in the config read from the file is true
  after the overlay and in the resolved config, whatever the environment config says;
  an empty text or list and a non-positive number of the environment config leave the
  value of the file in place; and for every service, flags that are true stay true, the
  timeout of the environment is taken exactly when it is above one second
  (\<open>10^9\<close> nanoseconds), and empty texts, empty lists and non-positive numbers of the
  environment leave the values of the file in place. A service that one of the two
  configs does not name reads as the zero struct there. (The last stage of \<^verbatim>\<open>new\<close>, which
  fills a port that is still 0 from the port variable, is no part of the overlay.)
\<close>

theorem env_overlay_keeps_file_values:
  assumes "new_merge config envConfig = Inr merged"
  shows "(\<forall>b\<in>set (Foreground # config_flags).
            b config \<longrightarrow> b merged \<and> b (new_defaults Getenv merged))
       \<and> (\<forall>f\<in>set (map fst config_texts). f envConfig = [] \<longrightarrow> f merged = f config)
       \<and> (Events envConfig = [] \<longrightarrow> Events merged = Events config)
       \<and> (Port envConfig \<le> 0 \<longrightarrow> Port merged = Port config)
       \<and> Services (new_defaults Getenv merged) = Services merged
       \<and> (\<forall>name.
            (\<forall>b\<in>set service_flags.
               b (lookup_service (Services config) name) \<longrightarrow>
               b (lookup_service (Services merged) name))
          \<and> Timeout (lookup_service (Services merged) name) =
              (if Timeout (lookup_service (Services envConfig) name) > 1000000000
               then Timeout (lookup_service (Services envConfig) name)
               else Timeout (lookup_service (Services config) name))
          \<and> (\<forall>f\<in>set service_texts.
               f (lookup_service (Services envConfig) name) = [] \<longrightarrow>
               f (lookup_service (Services merged) name) =
               f (lookup_service (Services config) name))
          \<and> (\<forall>f\<in>set service_lists.
               f (lookup_service (Services envConfig) name) = [] \<longrightarrow>
               f (lookup_service (Services merged) name) =
               f (lookup_service (Services config) name))
          \<and> (\<forall>g\<in>set service_numbers.
               g (lookup_service (Services envConfig) name) \<le> 0 \<longrightarrow>
               g (lookup_service (Services merged) name) =
               g (lookup_service (Services config) name)))"
proof -
  from new_merge_Inr [OF assms] obtain sv
    where m: "merged = (merge_values config envConfig)\<lparr>Services := sv\<rparr>"
    by blast
  have flags: "\<forall>b\<in>set (Foreground # config_flags).
                 b config \<longrightarrow> b merged \<and> b (new_defaults Getenv merged)"
  proof
    fix b assume b: "b \<in> set (Foreground # config_flags)"
    from b merge_values_keeps_flags [where config = config and envConfig = envConfig and sv = sv]
    have 1: "b config \<longrightarrow> b merged" unfolding m by blast
    from b new_defaults_flags [where Getenv = Getenv and config = merged]
    have 2: "b (new_defaults Getenv merged) = b merged" by blast
    from 1 2 show "b config \<longrightarrow> b merged \<and> b (new_defaults Getenv merged)" by simp
  qed
  have texts: "\<forall>f\<in>set (map fst config_texts). f envConfig = [] \<longrightarrow> f merged = f config"
    using merge_values_texts [where config = config and envConfig = envConfig and sv = sv]
    by (simp add: m)
  have events: "Events envConfig = [] \<longrightarrow> Events merged = Events config"
    by (simp add: m merge_values_Events)
  have port: "Port envConfig \<le> 0 \<longrightarrow> Port merged = Port config"
    by (simp add: m merge_values_Port)
  have services: "Services (new_defaults Getenv merged) = Services merged"
    by (rule new_defaults_Services)
  have per_service: "(\<forall>b\<in>set service_flags.
               b (lookup_service (Services config) name) \<longrightarrow>
               b (lookup_service (Services merged) name))
          \<and> Timeout (lookup_service (Services merged) name) =
              (if Timeout (lookup_service (Services envConfig) name) > 1000000000
               then Timeout (lookup_service (Services envConfig) name)
               else Timeout (lookup_service (Services config) name))
          \<and> (\<forall>f\<in>set service_texts.
               f (lookup_service (Services envConfig) name) = [] \<longrightarrow>
               f (lookup_service (Services merged) name) =
               f (lookup_service (Services config) name))
          \<and> (\<forall>f\<in>set service_lists.
               f (lookup_service (Services envConfig) name) = [] \<longrightarrow>
               f (lookup_service (Services merged) name) =
               f (lookup_service (Services config) name))
          \<and> (\<forall>g\<in>set service_numbers.
               g (lookup_service (Services envConfig) name) \<le> 0 \<longrightarrow>
               g (lookup_service (Services merged) name) =
               g (lookup_service (Services config) name))" for name
    unfolding new_merge_lookup [OF assms] by (rule mergeService_keeps)
  show ?thesis
    by (rule conjI [OF flags conjI [OF texts conjI [OF events conjI [OF port
          conjI [OF services allI [OF per_service]]]]]])
qed

theorem env_overlay_keeps_file_values_witness:
  "\<exists>merged. new_merge example_file example_env = Inr merged
     \<and> DisableWeb example_file \<and> \<not> DisableWeb example_env \<and> DisableWeb merged
     \<and> LogLevel example_env = [] \<and> LogLevel merged = ''debug''
     \<and> Port example_env = 0 \<and> Port merged = 8080
     \<and> DirectS3 (lookup_service (Services example_file) ''db'')
     \<and> \<not> DirectS3 (lookup_service (Services example_env) ''db'')
     \<and> DirectS3 (lookup_service (Services merged) ''db'')
     \<and> Timeout (lookup_service (Services example_env) ''db'') = 1000000000
     \<and> Timeout (lookup_service (Services merged) ''db'') = 30000000000
     \<and> Schedule (lookup_service (Services example_env) ''db'') = []
     \<and> Schedule (lookup_service (Services merged) ''db'') = ''@daily''"
proof -
  from example_merge_ex obtain merged
    where m: "new_merge example_file example_env = Inr merged" ..
  have f: "DisableWeb example_file" "LogLevel example_file = ''debug''"
    "Port example_file = 8080"
    "DirectS3 (lookup_service (Services example_file) ''db'')"
    "Timeout (lookup_service (Services example_file) ''db'') = 30000000000"
    "Schedule (lookup_service (Services example_file) ''db'') = ''@daily''"
    by (simp_all add: example_file_def zero_Config_def zero_Service_def lookup_service_def)
  have e: "\<not> DisableWeb example_env" "LogLevel example_env = []" "Port example_env = 0"
    "\<not> DirectS3 (lookup_service (Services example_env) ''db'')"
    "Timeout (lookup_service (Services example_env) ''db'') = 1000000000"
    "Schedule (lookup_service (Services example_env) ''db'') = []"
    by (simp_all add: example_env_def zero_Config_def zero_Service_def lookup_service_def)
  from env_overlay_keeps_file_values [OF m, of "\<lambda>_. []"] f e
  have "DisableWeb merged \<and> LogLevel merged = ''debug'' \<and> Port merged = 8080
     \<and> DirectS3 (lookup_service (Services merged) ''db'')
     \<and> Timeout (lookup_service (Services merged) ''db'') = 30000000000
     \<and> Schedule (lookup_service (Services merged) ''db'') = ''@daily''"
    by (simp add: config_flags_def config_texts_def service_flags_def service_texts_def)
  with m f e show ?thesis by blast
qed

lemma merge_values_takes_flags:
  "\<forall>b\<in>set config_flags.
     b envConfig \<longrightarrow> b ((merge_values config envConfig)\<lparr>Services := sv\<rparr>)"
  by (simp add: merge_values_def config_flags_def)

lemma new_defaults_LogLevel:
  "LogLevel (new_defaults Getenv config) =
     (if LogLevel config = [] then ''info'' else LogLevel config)"
  by (simp add: new_defaults_def)

lemma new_with_env:
  assumes "new_load_file unmarshal file = Inr fileConfig"
    and "Getenv BackmanConfig \<noteq> []"
    and "unmarshal (Getenv BackmanConfig) zero_Config = Inr envConfig"
    and "new unmarshal file Getenv = Inr config"
  shows "\<exists>merged. new_merge fileConfig envConfig = Inr merged
           \<and> config = new_defaults Getenv merged"
  using assms
  by (cases "new_merge fileConfig envConfig") (simp_all add: new_def Let_def)

text \<open>
  Against claim C7 as stated: the environment config is not taken for every setting it
  holds. A document that sets \<^verbatim>\<open>Foreground\<close> to true in the environment, over a file that
  sets it to false, resolves to false. A timeout of one second for a service in the
  environment config leaves the thirty seconds of the file in place. A name for a service
  in the environment config leaves the name of the file in place. A flag that is false
  in the environment config leaves a true flag of the file in place. And a user name in
  the environment config gives way to the user name of the dedicated variable.
\<close>

theorem new_counterexample:
  "map_sum id Foreground
     (decode_Foreground (only_BackmanConfig (json_Foreground True) BackmanConfig) zero_Config)
     = Inr True
   \<and> map_sum id Foreground
       (new decode_Foreground (FileData (json_Foreground False))
          (only_BackmanConfig (json_Foreground True)))
     = Inr False
   \<and> Timeout (lookup_service (Services example_env) ''db'') = 1000000000
   \<and> map_sum id (\<lambda>c. Timeout (lookup_service (Services (new_defaults (\<lambda>v. []) c)) ''db''))
       (new_merge example_file example_env)
     = Inr 30000000000
   \<and> Name (lookup_service (Services example_env_named) ''db'') = ''other''
   \<and> map_sum id (\<lambda>c. Name (lookup_service (Services (new_defaults (\<lambda>v. []) c)) ''db''))
       (new_merge example_file example_env_named)
     = Inr ''db''
   \<and> DisableWeb example_file
   \<and> \<not> DisableWeb example_env
   \<and> map_sum id (\<lambda>c. DisableWeb (new_defaults (\<lambda>v. []) c))
       (new_merge example_file example_env)
     = Inr True
   \<and> Username example_env = ''admin''
   \<and> map_sum id (\<lambda>c. Username (new_defaults (only_BackmanUsername ''root'') c))
       (new_merge example_file example_env)
     = Inr ''root''"
proof -
  have 1: "map_sum id Foreground
         (decode_Foreground (only_BackmanConfig (json_Foreground True) BackmanConfig) zero_Config)
       = Inr True"
    by (simp add: decode_Foreground_def only_BackmanConfig_def)
  have 2: "map_sum id Foreground
         (new decode_Foreground (FileData (json_Foreground False))
            (only_BackmanConfig (json_Foreground True))) = Inr False"
    by (simp add: new_def new_load_file_def decode_Foreground_def json_Foreground_def
          only_BackmanConfig_def quoted_def new_merge_def merge_services_def Let_def
          merge_values_def zero_Config_def new_defaults_def)
  have 3: "Timeout (lookup_service (Services example_env) ''db'') = 1000000000"
    by (simp add: example_env_def zero_Config_def zero_Service_def lookup_service_def)
  from example_merge_ex obtain merged
    where m: "new_merge example_file example_env = Inr merged" ..
  from new_merge_Inr [OF m] obtain sv
    where mv: "merged = (merge_values example_file example_env)\<lparr>Services := sv\<rparr>"
    by blast
  have f: "Timeout (lookup_service (Services example_file) ''db'') = 30000000000"
    "Name (lookup_service (Services example_file) ''db'') = ''db''"
    "DisableWeb example_file"
    by (simp_all add: example_file_def zero_Config_def zero_Service_def lookup_service_def)
  from 3 f have "Timeout (lookup_service (Services merged) ''db'') = 30000000000"
    by (simp add: new_merge_lookup [OF m] mergeService_Timeout)
  then have 4: "map_sum id (\<lambda>c. Timeout (lookup_service (Services (new_defaults (\<lambda>v. []) c)) ''db''))
       (new_merge example_file example_env) = Inr 30000000000"
    by (simp add: m new_defaults_Services)
  have 5: "Name (lookup_service (Services example_env_named) ''db'') = ''other''"
    by (simp add: example_env_named_def zero_Config_def zero_Service_def lookup_service_def)
  have "\<exists>n. new_merge example_file example_env_named = Inr n"
    by (simp add: new_merge_def Let_def merge_services_def merge_values_def example_file_def
          example_env_named_def zero_Config_def)
  then obtain named where n: "new_merge example_file example_env_named = Inr named" ..
  from f have "Name (lookup_service (Services named) ''db'') = ''db''"
    by (simp add: new_merge_lookup [OF n] mergeService_Name)
  then have 6: "map_sum id (\<lambda>c. Name (lookup_service (Services (new_defaults (\<lambda>v. []) c)) ''db''))
       (new_merge example_file example_env_named) = Inr ''db''"
    by (simp add: n new_defaults_Services)
  have e: "\<not> DisableWeb example_env" "Username example_env = ''admin''"
    by (simp_all add: example_env_def zero_Config_def)
  from f have "DisableWeb merged"
    by (simp add: mv merge_values_def)
  then have 7: "map_sum id (\<lambda>c. DisableWeb (new_defaults (\<lambda>v. []) c))
       (new_merge example_file example_env) = Inr True"
    by (simp add: m new_defaults_def)
  have 8: "map_sum id (\<lambda>c. Username (new_defaults (only_BackmanUsername ''root'') c))
       (new_merge example_file example_env) = Inr ''root''"
    by (simp add: m new_defaults_def only_BackmanUsername_def)
  from 1 2 3 4 5 6 f(3) e 7 8 show ?thesis by blast
qed

text \<open>
  Claim C7, amended. The configuration is resolved in layers, the later one winning: the
  built-in default of the log level, then the config file, then the overlay from the
  environment. When the file is read as \<open>fileConfig\<close> and the environment config is
  decoded as \<open>envConfig\<close>, the resolved config takes from \<open>envConfig\<close>, over the value of
  the file, every flag that is true there, every text and list that is not empty there,
  the port when it is positive and, for every service, the true flags, the non-empty
  texts and lists, the positive numbers and a timeout above one second. For a text that
  has a dedicated environment variable, and for the events, the value taken is that of
  the dedicated variable when it is set. The log level is that of the environment
  config, else that of the file, else \<^verbatim>\<open>info\<close>. \<open>Foreground\<close> and the name of a service are
  the two settings that are never taken from the environment config: they stay as the
  file has them.
\<close>

theorem new_layers:
  assumes "new_load_file unmarshal file = Inr fileConfig"
    and "Getenv BackmanConfig \<noteq> []"
    and "unmarshal (Getenv BackmanConfig) zero_Config = Inr envConfig"
    and "new unmarshal file Getenv = Inr config"
  shows "(\<forall>b\<in>set config_flags. b envConfig \<longrightarrow> b config)
       \<and> (\<forall>(f, v)\<in>set config_texts. f envConfig \<noteq> [] \<longrightarrow>
            f config = (case v of None \<Rightarrow> f envConfig
                        | Some x \<Rightarrow> if Getenv x \<noteq> [] then Getenv x else f envConfig))
       \<and> (Events envConfig \<noteq> [] \<longrightarrow>
            Events config = (if Getenv BackmanTeamsEvents \<noteq> []
                             then Split_comma (Getenv BackmanTeamsEvents)
                             else Events envConfig))
       \<and> (Port envConfig > 0 \<longrightarrow> Port config = Port envConfig)
       \<and> LogLevel config =
            (if LogLevel envConfig \<noteq> [] then LogLevel envConfig
             else if LogLevel fileConfig \<noteq> [] then LogLevel fileConfig
             else ''info'')
       \<and> Foreground config = Foreground fileConfig
       \<and> (\<forall>name. Name (lookup_service (Services config) name) =
                  Name (lookup_service (Services fileConfig) name))
       \<and> (\<forall>name.
            (\<forall>b\<in>set service_flags.
               b (lookup_service (Services envConfig) name) \<longrightarrow>
               b (lookup_service (Services config) name))
          \<and> (Timeout (lookup_service (Services envConfig) name) > 1000000000 \<longrightarrow>
               Timeout (lookup_service (Services config) name) =
               Timeout (lookup_service (Services envConfig) name))
          \<and> (\<forall>f\<in>set service_texts.
               f (lookup_service (Services envConfig) name) \<noteq> [] \<longrightarrow>
               f (lookup_service (Services config) name) =
               f (lookup_service (Services envConfig) name))
          \<and> (\<forall>f\<in>set service_lists.
               f (lookup_service (Services envConfig) name) \<noteq> [] \<longrightarrow>
               f (lookup_service (Services config) name) =
               f (lookup_service (Services envConfig) name))
          \<and> (\<forall>g\<in>set service_numbers.
               g (lookup_service (Services envConfig) name) > 0 \<longrightarrow>
               g (lookup_service (Services config) name) =
               g (lookup_service (Services envConfig) name)))"
proof -
  from new_with_env [OF assms] obtain merged
    where nm: "new_merge fileConfig envConfig = Inr merged"
      and c: "config = new_defaults Getenv merged"
    by blast
  from new_merge_Inr [OF nm] obtain sv
    where m: "merged = (merge_values fileConfig envConfig)\<lparr>Services := sv\<rparr>"
    by blast
  have flags: "\<forall>b\<in>set config_flags. b envConfig \<longrightarrow> b config"
  proof
    fix b assume b: "b \<in> set config_flags"
    from b merge_values_takes_flags [where config = fileConfig and envConfig = envConfig and sv = sv]
    have 1: "b envConfig \<longrightarrow> b merged" unfolding m by blast
    from b new_defaults_flags [where Getenv = Getenv and config = merged]
    have 2: "b (new_defaults Getenv merged) = b merged" by simp
    from 1 2 show "b envConfig \<longrightarrow> b config" by (simp add: c)
  qed
  have texts: "\<forall>(f, v)\<in>set config_texts. f envConfig \<noteq> [] \<longrightarrow>
            f config = (case v of None \<Rightarrow> f envConfig
                        | Some x \<Rightarrow> if Getenv x \<noteq> [] then Getenv x else f envConfig)"
  proof (rule ballI, clarify)
    fix f v assume fv: "(f, v) \<in> set config_texts" and ne: "f envConfig \<noteq> []"
    from fv have "f \<in> set (map fst config_texts)" by force
    with merge_values_texts [where config = fileConfig and envConfig = envConfig and sv = sv]
    have "f merged = (if f envConfig = [] then f fileConfig else f envConfig)"
      unfolding m by blast
    with ne have 1: "f merged = f envConfig" by simp
    with ne have "f merged \<noteq> []" by simp
    with fv new_defaults_texts [where Getenv = Getenv and config = merged]
    have "f (new_defaults Getenv merged) =
            (case v of None \<Rightarrow> f merged
             | Some x \<Rightarrow> if Getenv x \<noteq> [] then Getenv x else f merged)"
      by blast
    with 1 show "f config = (case v of None \<Rightarrow> f envConfig
                        | Some x \<Rightarrow> if Getenv x \<noteq> [] then Getenv x else f envConfig)"
      by (cases v) (simp_all add: c)
  qed
  have events: "Events envConfig \<noteq> [] \<longrightarrow>
            Events config = (if Getenv BackmanTeamsEvents \<noteq> []
                             then Split_comma (Getenv BackmanTeamsEvents)
                             else Events envConfig)"
    by (simp add: c m new_defaults_Events merge_values_Events)
  have port: "Port envConfig > 0 \<longrightarrow> Port config = Port envConfig"
    by (simp add: c m new_defaults_Port merge_values_Port)
  have "LogLevel merged = (if LogLevel envConfig = [] then LogLevel fileConfig else LogLevel envConfig)"
    unfolding m by (simp add: merge_values_def)
  then have loglevel: "LogLevel config =
            (if LogLevel envConfig \<noteq> [] then LogLevel envConfig
             else if LogLevel fileConfig \<noteq> [] then LogLevel fileConfig
             else ''info'')"
    by (simp add: c new_defaults_LogLevel)
  have foreground: "Foreground config = Foreground fileConfig"
    using new_defaults_flags [where Getenv = Getenv and config = merged]
    by (simp add: c m merge_values_Foreground)
  have per_service: "(\<forall>b\<in>set service_flags.
               b (lookup_service (Services envConfig) name) \<longrightarrow>
               b (lookup_service (Services config) name))
          \<and> (Timeout (lookup_service (Services envConfig) name) > 1000000000 \<longrightarrow>
               Timeout (lookup_service (Services config) name) =
               Timeout (lookup_service (Services envConfig) name))
          \<and> (\<forall>f\<in>set service_texts.
               f (lookup_service (Services envConfig) name) \<noteq> [] \<longrightarrow>
               f (lookup_service (Services config) name) =
               f (lookup_service (Services envConfig) name))
          \<and> (\<forall>f\<in>set service_lists.
               f (lookup_service (Services envConfig) name) \<noteq> [] \<longrightarrow>
               f (lookup_service (Services config) name) =
               f (lookup_service (Services envConfig) name))
          \<and> (\<forall>g\<in>set service_numbers.
               g (lookup_service (Services envConfig) name) > 0 \<longrightarrow>
               g (lookup_service (Services config) name) =
               g (lookup_service (Services envConfig) name))" for name
    unfolding c new_defaults_Services new_merge_lookup [OF nm] by (rule mergeService_takes)
  have names: "Name (lookup_service (Services config) name) =
                  Name (lookup_service (Services fileConfig) name)" for name
    unfolding c new_defaults_Services new_merge_lookup [OF nm] by (rule mergeService_Name)
  show ?thesis
    by (rule conjI [OF flags conjI [OF texts conjI [OF events conjI [OF port
          conjI [OF loglevel conjI [OF foreground conjI [OF allI [OF names]
            allI [OF per_service]]]]]]]])
qed


theorem new_layers_witness:
  "new_load_file decode_examples (FileData ''file'') = Inr example_file
   \<and> example_Getenv BackmanConfig \<noteq> []
   \<and> decode_examples (example_Getenv BackmanConfig) zero_Config = Inr example_env
   \<and> (\<exists>config. new decode_examples (FileData ''file'') example_Getenv = Inr config
        \<and> DisableMetrics example_env \<and> DisableMetrics config
        \<and> Username example_env = ''admin'' \<and> Username config = ''admin''
        \<and> LogLevel config = ''debug''
        \<and> Foreground example_env \<and> \<not> Foreground config
        \<and> Retention_Days (Retention (lookup_service (Services example_env) ''db'')) = 7
        \<and> Retention_Days (Retention (lookup_service (Services config) ''db'')) = 7
        \<and> Name (lookup_service (Services config) ''db'') = ''db'')"
proof -
  have 1: "new_load_file decode_examples (FileData ''file'') = Inr example_file"
    by (simp add: new_load_file_def decode_examples_def)
  have 2: "example_Getenv BackmanConfig \<noteq> []"
    by (simp add: example_Getenv_def)
  have 3: "decode_examples (example_Getenv BackmanConfig) zero_Config = Inr example_env"
    by (simp add: decode_examples_def example_Getenv_def)
  from example_merge_ex obtain merged
    where m: "new_merge example_file example_env = Inr merged" ..
  have 4: "new decode_examples (FileData ''file'') example_Getenv =
             Inr (new_defaults example_Getenv merged)"
    using 2 by (simp add: new_def 1 3 m Let_def)
  have e: "DisableMetrics example_env" "Username example_env = ''admin''"
    "LogLevel example_env = []" "Foreground example_env"
    "Retention_Days (Retention (lookup_service (Services example_env) ''db'')) = 7"
    by (simp_all add: example_env_def zero_Config_def zero_Service_def lookup_service_def)
  have f: "LogLevel example_file = ''debug''" "\<not> Foreground example_file"
    "Name (lookup_service (Services example_file) ''db'') = ''db''"
    by (simp_all add: example_file_def zero_Config_def zero_Service_def lookup_service_def)
  from new_layers [OF 1 2 3 4] e f
  have "DisableMetrics (new_defaults example_Getenv merged)
      \<and> Username (new_defaults example_Getenv merged) = ''admin''
      \<and> LogLevel (new_defaults example_Getenv merged) = ''debug''
      \<and> \<not> Foreground (new_defaults example_Getenv merged)
      \<and> Retention_Days (Retention (lookup_service
           (Services (new_defaults example_Getenv merged)) ''db'')) = 7
      \<and> Name (lookup_service (Services (new_defaults example_Getenv merged)) ''db'') = ''db''"
    by (simp add: config_flags_def config_texts_def service_numbers_def example_Getenv_def)
  with 1 2 3 4 e show ?thesis by blast
qed

section \<open>Properties of the REST handlers\<close>

lemma CreateBackup_accepts:
  assumes "QueryUnescape (Param c ''service_name'') = Inr serviceName"
    and "IsValidServiceType (Param c ''service_type'')"
    and "Name (GetService (Param c ''service_type'') serviceName) \<noteq> []"
  shows "CreateBackup IsValidServiceType GetService getAPIService c st =
           (\<lparr>status = 202,
             body = Descriptor (getAPIService (GetService (Param c ''service_type'') serviceName))\<rparr>,
            st\<lparr>goroutines := goroutines st @
                 [(GetService (Param c ''service_type'') serviceName, serviceName)]\<rparr>)"
  using assms by (simp add: CreateBackup_def Let_def JSON_def StatusAccepted_def)

text \<open>
  Claim C4. When the service name decodes, the service type is valid and the service is
  found, the handler answers 202 Accepted with the descriptor of the service and starts
  one goroutine for the backup; it changes nothing else. The answer is fixed before the
  goroutine runs: whatever \<^verbatim>\<open>service.CreateBackup\<close> does later, and whether it fails or
  not, the response is the same.
\<close>

theorem CreateBackup_accepted:
  assumes "QueryUnescape (Param c ''service_name'') = Inr serviceName"
    and "IsValidServiceType (Param c ''service_type'')"
    and "Name (GetService (Param c ''service_type'') serviceName) \<noteq> []"
  shows "CreateBackup IsValidServiceType GetService getAPIService c st =
           (\<lparr>status = 202,
             body = Descriptor (getAPIService (GetService (Param c ''service_type'') serviceName))\<rparr>,
            st\<lparr>goroutines := goroutines st @
                 [(GetService (Param c ''service_type'') serviceName, serviceName)]\<rparr>)
       \<and> fst (serve_CreateBackup job IsValidServiceType GetService getAPIService c st) =
           \<lparr>status = 202,
            body = Descriptor (getAPIService (GetService (Param c ''service_type'') serviceName))\<rparr>
       \<and> fst (serve_CreateBackup job IsValidServiceType GetService getAPIService c st) =
           fst (serve_CreateBackup job' IsValidServiceType GetService getAPIService c st)"
  by (simp add: serve_CreateBackup_def
        CreateBackup_accepts [where IsValidServiceType = IsValidServiceType
          and GetService = GetService and c = c and serviceName = serviceName, OF assms])

theorem CreateBackup_accepted_witness:
  "QueryUnescape (Param (request ''postgres'' ''my+db'' []) ''service_name'') = Inr ''my db''
   \<and> example_IsValidServiceType (Param (request ''postgres'' ''my+db'' []) ''service_type'')
   \<and> Name (example_GetService (Param (request ''postgres'' ''my+db'' []) ''service_type'') ''my db'') \<noteq> []
   \<and> fst (serve_CreateBackup failing_backup example_IsValidServiceType example_GetService Name
            (request ''postgres'' ''my+db'' []) api_state0)
       = \<lparr>status = 202, body = Descriptor ''my db''\<rparr>
   \<and> fst (serve_CreateBackup succeeding_backup example_IsValidServiceType example_GetService Name
            (request ''postgres'' ''my+db'' []) api_state0)
       = \<lparr>status = 202, body = Descriptor ''my db''\<rparr>
   \<and> Query (api_tracker (snd (serve_CreateBackup failing_backup example_IsValidServiceType
            example_GetService Name (request ''postgres'' ''my+db'' []) api_state0)))
          (''postgres'', ''my db'') = failed
   \<and> Query (api_tracker (snd (serve_CreateBackup succeeding_backup example_IsValidServiceType
            example_GetService Name (request ''postgres'' ''my+db'' []) api_state0)))
          (''postgres'', ''my db'') = succeeded"
proof -
  have 1: "QueryUnescape (Param (request ''postgres'' ''my+db'' []) ''service_name'') = Inr ''my db''"
    by (simp add: request_def)
  have 2: "example_IsValidServiceType (Param (request ''postgres'' ''my+db'' []) ''service_type'')"
    by (simp add: request_def example_IsValidServiceType_def)
  have 3: "Name (example_GetService (Param (request ''postgres'' ''my+db'' []) ''service_type'') ''my db'') \<noteq> []"
    by (simp add: request_def example_GetService_def)
  have g: "example_GetService (Param (request ''postgres'' ''my+db'' []) ''service_type'') ''my db''
      = zero_Service\<lparr>Name := ''my db'',
                         Binding := (Binding zero_Service)\<lparr>Binding_Type := ''postgres''\<rparr>\<rparr>"
    by (simp add: request_def example_GetService_def)
  note t = CreateBackup_accepted [where IsValidServiceType = example_IsValidServiceType
      and GetService = example_GetService and c = "request ''postgres'' ''my+db'' []"
      and serviceName = "''my db''" and getAPIService = Name and st = api_state0, OF 1 2 3]
  from t [where job = failing_backup and job' = succeeding_backup]
  have 4: "fst (serve_CreateBackup failing_backup example_IsValidServiceType example_GetService Name
            (request ''postgres'' ''my+db'' []) api_state0)
       = \<lparr>status = 202, body = Descriptor ''my db''\<rparr>"
    by (simp add: g)
  from t [where job = succeeding_backup and job' = failing_backup]
  have 5: "fst (serve_CreateBackup succeeding_backup example_IsValidServiceType example_GetService Name
            (request ''postgres'' ''my+db'' []) api_state0)
       = \<lparr>status = 202, body = Descriptor ''my db''\<rparr>"
    by (simp add: g)
  from t [where job = failing_backup and job' = succeeding_backup]
  have c: "CreateBackup example_IsValidServiceType example_GetService Name
            (request ''postgres'' ''my+db'' []) api_state0 =
          (\<lparr>status = 202, body = Descriptor ''my db''\<rparr>,
            api_state0\<lparr>goroutines := [(zero_Service\<lparr>Name := ''my db'',
                         Binding := (Binding zero_Service)\<lparr>Binding_Type := ''postgres''\<rparr>\<rparr>, ''my db'')]\<rparr>)"
    by (simp add: g api_state0_def)
  have 6: "Query (api_tracker (snd (serve_CreateBackup failing_backup example_IsValidServiceType
            example_GetService Name (request ''postgres'' ''my+db'' []) api_state0)))
          (''postgres'', ''my db'') = failed"
    by (simp add: serve_CreateBackup_def c)
       (simp add: run_goroutines_def backup_goroutine_def
          failing_backup_def api_state0_def Reserve_def in_flight_def Query_def key_of_def
          zero_Service_def MarkRunning_def MarkFailed_def set_phase_def Errorf_log_def)
  have 7: "Query (api_tracker (snd (serve_CreateBackup succeeding_backup example_IsValidServiceType
            example_GetService Name (request ''postgres'' ''my+db'' []) api_state0)))
          (''postgres'', ''my db'') = succeeded"
    by (simp add: serve_CreateBackup_def c)
       (simp add: run_goroutines_def backup_goroutine_def
          succeeding_backup_def api_state0_def Reserve_def in_flight_def Query_def key_of_def
          zero_Service_def MarkRunning_def MarkSucceeded_def set_phase_def Errorf_log_def)
  from 1 2 3 4 5 6 7 show ?thesis by blast
qed

lemma CreateBackup_tracker:
  "api_tracker (snd (CreateBackup IsValidServiceType GetService getAPIService c st)) = api_tracker st"
  by (simp add: CreateBackup_def Let_def Errorf_log_def split: sum.splits)

lemma CreateBackup_bad_type:
  assumes "\<not> IsValidServiceType (Param c ''service_type'')"
  shows "status (fst (CreateBackup IsValidServiceType GetService getAPIService c st)) = 400
       \<and> goroutines (snd (CreateBackup IsValidServiceType GetService getAPIService c st)) = goroutines st"
  using assms
  by (simp add: CreateBackup_def Let_def JSON_def StatusBadRequest_def Errorf_log_def
        split: sum.splits)

lemma CreateBackup_unknown:
  assumes "QueryUnescape (Param c ''service_name'') = Inr serviceName"
    and "IsValidServiceType (Param c ''service_type'')"
    and "Name (GetService (Param c ''service_type'') serviceName) = []"
  shows "status (fst (CreateBackup IsValidServiceType GetService getAPIService c st)) = 404
       \<and> goroutines (snd (CreateBackup IsValidServiceType GetService getAPIService c st)) = goroutines st"
  using assms
  by (simp add: CreateBackup_def Let_def JSON_def StatusNotFound_def Errorf_log_def)

lemma run_no_goroutines:
  assumes "goroutines st = []"
  shows "api_tracker (run_goroutines job st) = api_tracker st"
  using assms by (simp add: run_goroutines_def)

text \<open>
  Claim C5. The handler validates before it starts anything. A request whose service
  type is not recognised is answered 400, and a request with a recognised type whose
  service is not found is answered 404; in both cases no goroutine is started and the
  state tracker is as it was, also after everything that was started has run. The
  check of the type comes first, so a request that fails both checks is answered 400.
\<close>

theorem CreateBackup_validates_first:
  "(\<not> IsValidServiceType (Param c ''service_type'') \<longrightarrow>
      status (fst (CreateBackup IsValidServiceType GetService getAPIService c st)) = 400
      \<and> goroutines (snd (CreateBackup IsValidServiceType GetService getAPIService c st))
          = goroutines st
      \<and> api_tracker (snd (CreateBackup IsValidServiceType GetService getAPIService c st))
          = api_tracker st
      \<and> (goroutines st = [] \<longrightarrow>
           api_tracker (snd (serve_CreateBackup job IsValidServiceType GetService getAPIService c st))
           = api_tracker st))
   \<and> (IsValidServiceType (Param c ''service_type'')
      \<and> QueryUnescape (Param c ''service_name'') = Inr serviceName
      \<and> Name (GetService (Param c ''service_type'') serviceName) = [] \<longrightarrow>
      status (fst (CreateBackup IsValidServiceType GetService getAPIService c st)) = 404
      \<and> goroutines (snd (CreateBackup IsValidServiceType GetService getAPIService c st))
          = goroutines st
      \<and> api_tracker (snd (CreateBackup IsValidServiceType GetService getAPIService c st))
          = api_tracker st
      \<and> (goroutines st = [] \<longrightarrow>
           api_tracker (snd (serve_CreateBackup job IsValidServiceType GetService getAPIService c st))
           = api_tracker st))"
proof -
  have serve: "api_tracker (snd (serve_CreateBackup job IsValidServiceType GetService getAPIService c st))
           = api_tracker st"
    if "goroutines (snd (CreateBackup IsValidServiceType GetService getAPIService c st)) = []"
    using that run_no_goroutines [OF that, of job]
    by (simp add: serve_CreateBackup_def CreateBackup_tracker split: prod.splits)
       (metis CreateBackup_tracker snd_conv)
  show ?thesis
    using CreateBackup_bad_type [where IsValidServiceType = IsValidServiceType and c = c
        and GetService = GetService and getAPIService = getAPIService and st = st]
      CreateBackup_unknown [where IsValidServiceType = IsValidServiceType and c = c
        and GetService = GetService and getAPIService = getAPIService and st = st
        and serviceName = serviceName]
      serve
    by (simp add: CreateBackup_tracker)
qed


theorem CreateBackup_validates_first_witness:
  "\<not> example_IsValidServiceType (Param (request ''mongodb'' ''db'' []) ''service_type'')
   \<and> status (fst (CreateBackup example_IsValidServiceType example_GetService Name
         (request ''mongodb'' ''db'' []) api_state0)) = 400
   \<and> example_IsValidServiceType (Param (request ''postgres'' ''ghost'' []) ''service_type'')
   \<and> QueryUnescape (Param (request ''postgres'' ''ghost'' []) ''service_name'') = Inr ''ghost''
   \<and> Name (example_GetService (Param (request ''postgres'' ''ghost'' []) ''service_type'') ''ghost'') = []
   \<and> status (fst (CreateBackup example_IsValidServiceType example_GetService Name
         (request ''postgres'' ''ghost'' []) api_state0)) = 404
   \<and> goroutines (snd (CreateBackup example_IsValidServiceType example_GetService Name
         (request ''postgres'' ''ghost'' []) api_state0)) = []
   \<and> goroutines api_state0 = []
   \<and> api_tracker (snd (serve_CreateBackup failing_backup example_IsValidServiceType
         example_GetService Name (request ''postgres'' ''ghost'' []) api_state0))
       = api_tracker api_state0"
proof -
  have 1: "\<not> example_IsValidServiceType (Param (request ''mongodb'' ''db'' []) ''service_type'')"
    by (simp add: request_def example_IsValidServiceType_def)
  have 2: "example_IsValidServiceType (Param (request ''postgres'' ''ghost'' []) ''service_type'')"
    by (simp add: request_def example_IsValidServiceType_def)
  have 3: "QueryUnescape (Param (request ''postgres'' ''ghost'' []) ''service_name'') = Inr ''ghost''"
    by (simp add: request_def)
  have 4: "Name (example_GetService (Param (request ''postgres'' ''ghost'' []) ''service_type'') ''ghost'') = []"
    by (simp add: request_def example_GetService_def zero_Service_def)
  have 5: "goroutines api_state0 = []"
    by (simp add: api_state0_def)
  from CreateBackup_validates_first [where IsValidServiceType = example_IsValidServiceType
      and GetService = example_GetService and getAPIService = Name
      and c = "request ''mongodb'' ''db'' []" and st = api_state0] 1
  have 6: "status (fst (CreateBackup example_IsValidServiceType example_GetService Name
         (request ''mongodb'' ''db'' []) api_state0)) = 400"
    by simp
  from CreateBackup_validates_first [where IsValidServiceType = example_IsValidServiceType
      and GetService = example_GetService and getAPIService = Name
      and c = "request ''postgres'' ''ghost'' []" and st = api_state0
      and serviceName = "''ghost''" and job = failing_backup] 2 3 4 5
  have 7: "status (fst (CreateBackup example_IsValidServiceType example_GetService Name
         (request ''postgres'' ''ghost'' []) api_state0)) = 404
   \<and> goroutines (snd (CreateBackup example_IsValidServiceType example_GetService Name
         (request ''postgres'' ''ghost'' []) api_state0)) = []
   \<and> api_tracker (snd (serve_CreateBackup failing_backup example_IsValidServiceType
         example_GetService Name (request ''postgres'' ''ghost'' []) api_state0))
       = api_tracker api_state0"
    by simp
  from 1 2 3 4 5 6 7 show ?thesis by blast
qed


lemma DeleteBackup_response:
  assumes "QueryUnescape (Param c ''service_name'') = Inr serviceName"
    and "QueryUnescape (Param c ''file'') = Inr filename"
  shows "DeleteBackup service_DeleteBackup c st =
           (case service_DeleteBackup (Param c ''service_type'') serviceName filename st of
              (Some err, st') \<Rightarrow> (\<lparr>status = 500, body = ErrorText err\<rparr>, st')
            | (None, st') \<Rightarrow> (\<lparr>status = 204, body = NoContent\<rparr>, st'))"
  using assms
  by (simp add: DeleteBackup_def Let_def JSON_def StatusInternalServerError_def
        StatusNoContent_def split: prod.splits option.splits)

lemma spec_DeleteBackup_missing:
  assumes "objects (api_catalog st) (artifact_key serviceType serviceName filename) = None"
  shows "spec_DeleteBackup serviceType serviceName filename st =
           (Some (NotFoundError (artifact_key serviceType serviceName filename)), st)"
  using assms by (simp add: spec_DeleteBackup_def Catalog_Delete_def)

text \<open>
  Against claim C6 as stated: the handler does not tell a missing artifact from a
  storage failure by its status. A delete of a key that does not exist is a
  \<open>NotFoundError\<close> and is answered 500; a delete of a stored artifact while the backend is
  out of reach is a \<open>StorageError\<close> and is answered 500 as well.
\<close>

theorem DeleteBackup_not_found_counterexample:
  "fst (spec_DeleteBackup ''postgres'' ''db'' ''dump.gz'' api_state0) =
      Some (NotFoundError ''postgres/db/dump.gz'')
   \<and> status (fst (DeleteBackup spec_DeleteBackup (request ''postgres'' ''db'' ''dump.gz'')
        api_state0 :: unit response \<times> api_state)) = 500
   \<and> fst (spec_DeleteBackup ''postgres'' ''db'' ''dump.gz'' stored_unreachable_state) =
      Some (StorageError ''postgres/db/dump.gz'')
   \<and> status (fst (DeleteBackup spec_DeleteBackup (request ''postgres'' ''db'' ''dump.gz'')
        stored_unreachable_state :: unit response \<times> api_state)) = 500"
  by (simp add: DeleteBackup_def Let_def JSON_def StatusInternalServerError_def request_def
        spec_DeleteBackup_def Catalog_Delete_def artifact_key_def api_state0_def
        stored_unreachable_state_def)

text \<open>
  Claim C6, amended. Every delete of an artifact key that does not exist returns
  \<open>NotFoundError\<close>, never another failure (also not when the backend is out of reach),
  and leaves catalog, tracker and everything else as it was. The handler, once the
  service name and the file name of the request decode, answers every error of
  \<^verbatim>\<open>service.DeleteBackup\<close> with 500 and the message of the error, and answers 204 when there
  is no error; so the not-found case is answered 500 with the message of the
  \<open>NotFoundError\<close>, the same status as a storage failure.
\<close>

theorem DeleteBackup_maps_errors_to_500:
  assumes "QueryUnescape (Param c ''service_name'') = Inr serviceName"
    and "QueryUnescape (Param c ''file'') = Inr filename"
  shows "(\<forall>err st'. service_DeleteBackup (Param c ''service_type'') serviceName filename st
              = (Some err, st') \<longrightarrow>
            (DeleteBackup service_DeleteBackup c st :: 'd response \<times> api_state)
              = (\<lparr>status = 500, body = ErrorText err\<rparr>, st'))
       \<and> (\<forall>st'. service_DeleteBackup (Param c ''service_type'') serviceName filename st
              = (None, st') \<longrightarrow>
            (DeleteBackup service_DeleteBackup c st :: 'd response \<times> api_state)
              = (\<lparr>status = 204, body = NoContent\<rparr>, st'))
       \<and> (objects (api_catalog st) (artifact_key (Param c ''service_type'') serviceName filename)
              = None \<longrightarrow>
            spec_DeleteBackup (Param c ''service_type'') serviceName filename st =
              (Some (NotFoundError (artifact_key (Param c ''service_type'') serviceName filename)), st)
            \<and> (\<forall>m. fst (spec_DeleteBackup (Param c ''service_type'') serviceName filename st)
                  \<noteq> Some (StorageError m))
            \<and> (DeleteBackup spec_DeleteBackup c st :: 'd response \<times> api_state) =
              (\<lparr>status = 500,
                body = ErrorText (NotFoundError
                         (artifact_key (Param c ''service_type'') serviceName filename))\<rparr>, st))"
  by (simp add: DeleteBackup_response [OF assms] spec_DeleteBackup_missing)

theorem DeleteBackup_maps_errors_to_500_witness:
  "QueryUnescape (Param (request ''postgres'' ''db'' ''dump.gz'') ''service_name'') = Inr ''db''
   \<and> QueryUnescape (Param (request ''postgres'' ''db'' ''dump.gz'') ''file'') = Inr ''dump.gz''
   \<and> objects (api_catalog api_state0) (artifact_key ''postgres'' ''db'' ''dump.gz'') = None
   \<and> (DeleteBackup spec_DeleteBackup (request ''postgres'' ''db'' ''dump.gz'') api_state0
         :: unit response \<times> api_state) =
       (\<lparr>status = 500, body = ErrorText (NotFoundError ''postgres/db/dump.gz'')\<rparr>, api_state0)
   \<and> \<not> reachable (api_catalog unreachable_state)
   \<and> objects (api_catalog unreachable_state) (artifact_key ''postgres'' ''db'' ''dump.gz'') = None
   \<and> (DeleteBackup spec_DeleteBackup (request ''postgres'' ''db'' ''dump.gz'') unreachable_state
         :: unit response \<times> api_state) =
       (\<lparr>status = 500, body = ErrorText (NotFoundError ''postgres/db/dump.gz'')\<rparr>,
        unreachable_state)"
proof -
  have 1: "QueryUnescape (Param (request ''postgres'' ''db'' ''dump.gz'') ''service_name'') = Inr ''db''"
    by (simp add: request_def)
  have 2: "QueryUnescape (Param (request ''postgres'' ''db'' ''dump.gz'') ''file'') = Inr ''dump.gz''"
    by (simp add: request_def)
  have 3: "objects (api_catalog api_state0) (artifact_key ''postgres'' ''db'' ''dump.gz'') = None"
    by (simp add: api_state0_def)
  have 4: "\<not> reachable (api_catalog unreachable_state)"
    "objects (api_catalog unreachable_state) (artifact_key ''postgres'' ''db'' ''dump.gz'') = None"
    by (simp_all add: unreachable_state_def)
  have 5: "Param (request ''postgres'' ''db'' ''dump.gz'') ''service_type'' = ''postgres''"
    by (simp add: request_def)
  from DeleteBackup_maps_errors_to_500 [OF 1 2, where st = api_state0
      and service_DeleteBackup = spec_DeleteBackup and ?'d = unit] 3
  have 6: "(DeleteBackup spec_DeleteBackup (request ''postgres'' ''db'' ''dump.gz'') api_state0
         :: unit response \<times> api_state) =
       (\<lparr>status = 500, body = ErrorText (NotFoundError ''postgres/db/dump.gz'')\<rparr>, api_state0)"
    by (simp add: 5 artifact_key_def)
  from DeleteBackup_maps_errors_to_500 [OF 1 2, where st = unreachable_state
      and service_DeleteBackup = spec_DeleteBackup and ?'d = unit] 4
  have 7: "(DeleteBackup spec_DeleteBackup (request ''postgres'' ''db'' ''dump.gz'') unreachable_state
         :: unit response \<times> api_state) =
       (\<lparr>status = 500, body = ErrorText (NotFoundError ''postgres/db/dump.gz'')\<rparr>,
        unreachable_state)"
    by (simp add: 5 artifact_key_def)
  from 1 2 3 4 6 7 show ?thesis by blast
qed

section \<open>Properties of the web handler\<close>

text \<open>
  Claim C9. Whenever the error handler renders a page, the fields \<open>Services\<close> and
  \<open>AllServices\<close> of the page are nil, and what it does (the rendering or the panic) is
  the same for any two handlers: the services of the handler never reach the error page.
\<close>

theorem ErrorHandler_hides_services:
  "(\<forall>r. ErrorHandler h err now = Inr r \<longrightarrow>
        Page_Services (render_page r) = None \<and> Page_AllServices (render_page r) = None)
   \<and> ErrorHandler h err now = ErrorHandler h' err now"
  by (auto simp: ErrorHandler_def newPage_def Let_def
        split: handler_error.splits message.splits)

theorem ErrorHandler_hides_services_witness:
  "Handler_Services example_Handler \<noteq> None
   \<and> map_sum id (\<lambda>r. Page_Services (render_page r))
       (ErrorHandler example_Handler (HTTPError 404 (StringMessage ''Not Found'')) 0) = Inr None
   \<and> map_sum id (\<lambda>r. Page_AllServices (render_page r))
       (ErrorHandler example_Handler (HTTPError 404 (StringMessage ''Not Found'')) 0) = Inr None
   \<and> map_sum id render_code
       (ErrorHandler example_Handler (HTTPError 404 (StringMessage ''Not Found'')) 0) = Inr 404
   \<and> ErrorHandler example_Handler (HTTPError 404 (StringMessage ''Not Found'')) 0
       = ErrorHandler \<lparr>Handler_Services = None\<rparr> (HTTPError 404 (StringMessage ''Not Found'')) 0"
proof -
  obtain r where r: "ErrorHandler example_Handler (HTTPError 404 (StringMessage ''Not Found'')) 0 = Inr r"
    and c: "render_code r = 404"
    by (simp add: ErrorHandler_def Let_def)
  note t = ErrorHandler_hides_services [of example_Handler
      "HTTPError 404 (StringMessage ''Not Found'')" 0 "\<lparr>Handler_Services = None\<rparr>"]
  from t r have ps: "Page_Services (render_page r) = None"
    and pa: "Page_AllServices (render_page r) = None"
    by simp_all
  have 1: "Handler_Services example_Handler \<noteq> None"
    by (simp add: example_Handler_def)
  have 2: "map_sum id (\<lambda>r. Page_Services (render_page r))
       (ErrorHandler example_Handler (HTTPError 404 (StringMessage ''Not Found'')) 0) = Inr None"
    by (simp add: r ps)
  have 3: "map_sum id (\<lambda>r. Page_AllServices (render_page r))
       (ErrorHandler example_Handler (HTTPError 404 (StringMessage ''Not Found'')) 0) = Inr None"
    by (simp add: r pa)
  have 4: "map_sum id render_code
       (ErrorHandler example_Handler (HTTPError 404 (StringMessage ''Not Found'')) 0) = Inr 404"
    by (simp add: r c)
  from t have 5: "ErrorHandler example_Handler (HTTPError 404 (StringMessage ''Not Found'')) 0
       = ErrorHandler \<lparr>Handler_Services = None\<rparr> (HTTPError 404 (StringMessage ''Not Found'')) 0"
    by (rule conjunct2)
  from 1 2 3 4 5 show ?thesis by blast
qed

lemma byte_lt: "unat (v :: 8 word) < 256"
  using unsigned_less [of v, where 'a = nat] by simp

lemma ConstantTimeByteEq_zero: "ConstantTimeByteEq v 0 = (if v = 0 then 1 else 0)"
proof (cases "v = 0")
  case True
  then show ?thesis by (simp add: ConstantTimeByteEq_def)
next
  case False
  have u: "unat (ucast v :: 32 word) = unat v"
    using byte_lt [of v] by (simp add: unsigned_ucast_eq take_bit_nat_eq_self)
  from False have "unat v \<noteq> 0" by (simp add: unsigned_eq_0_iff)
  with u have "(ucast v :: 32 word) \<noteq> 0" by (metis unsigned_0)
  then have "unat ((ucast v :: 32 word) - 1) = unat v - 1"
    by (simp add: unat_minus_one u)
  with byte_lt [of v] have "unat ((ucast v :: 32 word) - 1) < 2 ^ 31" by simp
  then have "drop_bit 31 (unat ((ucast v :: 32 word) - 1)) = 0"
    by (simp add: drop_bit_eq_div)
  then have "unat (drop_bit 31 ((ucast v :: 32 word) - 1)) = 0"
    by (simp only: unat_drop_bit_eq)
  then have "drop_bit 31 ((ucast v :: 32 word) - 1) = 0"
    by (simp add: unsigned_eq_0_iff)
  with False show ?thesis by (simp add: ConstantTimeByteEq_def)
qed

lemma xor_zero_eq: "a XOR b = 0 \<Longrightarrow> a = b" for a b :: "8 word"
proof -
  assume z: "a XOR b = 0"
  have "a XOR (a XOR b) = b" by (simp flip: xor.assoc)
  with z show "a = b" by simp
qed

lemma fold_or_xor:
  "(fold (\<lambda>(a, b) v. v OR (a XOR b)) zs (v :: 8 word) = 0) = (v = 0 \<and> (\<forall>(a, b)\<in>set zs. a = b))"
  by (induction zs arbitrary: v) (auto simp: or_eq_0_iff dest: xor_zero_eq)

lemma ConstantTimeCompare_iff: "ConstantTimeCompare x y = 1 \<longleftrightarrow> x = y"
proof (cases "length x = length y")
  case False
  then show ?thesis by (auto simp: ConstantTimeCompare_def)
next
  case True
  then have "(\<forall>(a, b)\<in>set (zip x y). a = b) \<longleftrightarrow> x = y"
    by (induction x y rule: list_induct2) auto
  with True show ?thesis
    by (simp add: ConstantTimeCompare_def ConstantTimeByteEq_zero fold_or_xor)
qed

lemma unat_byte_of_char: "unat (of_char c :: 8 word) = of_char c"
proof -
  have "(of_char c :: nat) < 256"
    by (cases c) (simp add: of_bool_def)
  then have "unat (of_nat (of_char c) :: 8 word) = of_char c"
    by (simp add: unat_of_nat)
  then show ?thesis by (simp add: of_nat_of_char)
qed

lemma bytes_inj: "bytes s = bytes t \<longleftrightarrow> s = t"
proof
  assume "bytes s = bytes t"
  then have "map unat (bytes s) = map unat (bytes t)" by simp
  then have "map (of_char :: char \<Rightarrow> nat) s = map of_char t"
    by (simp add: bytes_def unat_byte_of_char comp_def)
  then show "s = t"
    by (simp add: inj_map_eq_map [OF inj_of_char])
qed simp

text \<open>
  The validator of the basic-auth middleware grants access exactly when the supplied
  user name and password equal the configured ones. How long the comparison takes is
  not a property of these functions.
\<close>

lemma validator_iff:
  "validator username password u p \<longleftrightarrow> u = username \<and> p = password"
  by (simp add: validator_def ConstantTimeCompare_iff bytes_inj)

end
